theory Spec2Isabelle
  imports Complex_Main "HOL-Library.AList" "HOL-Library.FSet"
begin

section \<open>Python values, exceptions and dictionaries\<close>

text \<open>
  The development embeds \<^verbatim>\<open>caffe2/python/layer_model_helper.py\<close> (class
  \<^verbatim>\<open>LayerModelHelper\<close>). A method that mutates the object takes the object's state
  and returns the new state together with its result; a raised exception is the
  \<open>Inl\<close> branch of the result, and the state returned with it is the state the
  object is left in when the exception propagates (Python does not roll back).
\<close>

datatype error = AssertionError | ValueError | KeyError | TypeError | AttributeError

datatype pyval =
    PyNone
  | PyBool bool
  | PyInt int
  | PyFloat real
  | PyStr string
  | PyList "pyval list"

text \<open>A blob reference is identified by its name (\<^verbatim>\<open>str(blob)\<close>).\<close>

type_synonym blob = string

text \<open>
  A Python dict is an association list in insertion order: \<^verbatim>\<open>d[k] = v\<close> is
  \<open>AList.update k v d\<close> (an existing key keeps its place, a new key goes last),
  \<^verbatim>\<open>k in d\<close> is \<open>dict_contains\<close>, \<^verbatim>\<open>d[k]\<close> and \<^verbatim>\<open>d.get(k)\<close> are \<open>map_of d k\<close>,
  \<^verbatim>\<open>d.values()\<close> is \<open>map snd d\<close>. The keys of a dict are distinct.
\<close>

definition dict_contains :: "'k \<Rightarrow> ('k \<times> 'v) list \<Rightarrow> bool" where
  "dict_contains k d = (map_of d k \<noteq> None)"

definition dict_ok :: "('k \<times> 'v) list \<Rightarrow> bool" where
  "dict_ok d = distinct (map fst d)"

subsection \<open>\<^verbatim>\<open>str(index)\<close> for a non-negative integer\<close>

definition digit_char :: "nat \<Rightarrow> char" where
  "digit_char d = ''0123456789'' ! d"

function str_nat :: "nat \<Rightarrow> string" where
  "str_nat n =
     (if n < 10 then [digit_char n] else str_nat (n div 10) @ [digit_char (n mod 10)])"
  by pat_completeness auto
termination
  by (relation "measure id") auto

declare str_nat.simps [simp del]

lemma digit_char_inj:
  assumes "a < 10" and "b < 10" and "digit_char a = digit_char b"
  shows "a = b"
proof -
  have d: "distinct ''0123456789''" by simp
  have "length ''0123456789'' = 10" by simp
  with assms d show ?thesis
    unfolding digit_char_def by (metis nth_eq_iff_index_eq)
qed

lemma str_nat_nonempty: "str_nat n \<noteq> []"
  by (subst str_nat.simps) simp

lemma str_nat_inj: "str_nat n = str_nat m \<Longrightarrow> n = m"
proof (induction n arbitrary: m rule: str_nat.induct)
  case (1 n)
  show ?case
  proof (cases "n < 10")
    case True
    note n = this
    show ?thesis
    proof (cases "m < 10")
      case True
      with n "1.prems" show ?thesis
        by (simp add: str_nat.simps[of n] str_nat.simps[of m] digit_char_inj)
    next
      case False
      with n "1.prems" show ?thesis
        using str_nat_nonempty[of "m div 10"]
        by (simp add: str_nat.simps[of n] str_nat.simps[of m])
    qed
  next
    case False
    note n = this
    show ?thesis
    proof (cases "m < 10")
      case True
      with n "1.prems" show ?thesis
        using str_nat_nonempty[of "n div 10"]
        by (simp add: str_nat.simps[of n] str_nat.simps[of m])
    next
      case False
      with n "1.prems" have e: "str_nat (n div 10) = str_nat (m div 10)"
        and d: "digit_char (n mod 10) = digit_char (m mod 10)"
        by (simp_all add: str_nat.simps[of n] str_nat.simps[of m])
      from "1.IH"[OF n e] have q: "n div 10 = m div 10" .
      from d have r: "n mod 10 = m mod 10" by (auto intro: digit_char_inj)
      from q r show ?thesis by (metis div_mult_mod_eq)
    qed
  qed
qed

subsection \<open>The loop that makes a name unused\<close>

text \<open>
  \<^verbatim>\<open>next_layer_name\<close> and \<^verbatim>\<open>add_loss\<close> run the same loop:
  \<^verbatim>\<open>
      index = 0
      while name in used:
          name = prefix_base + str(index)
          index += 1
  \<close>
  with \<^verbatim>\<open>prefix_base = base + '_auto_'\<close>. \<open>auto_name_loop\<close> is the loop from any
  of its states \<open>(name, index)\<close>; \<open>used\<close> is finite (a Python set, or the names a
  struct holds), which is what makes the loop end.
\<close>

function auto_name_loop :: "string fset \<Rightarrow> string \<Rightarrow> string \<Rightarrow> nat \<Rightarrow> string" where
  "auto_name_loop used prefix_base name index =
     (if name |\<in>| used
      then auto_name_loop used prefix_base (prefix_base @ str_nat index) (index + 1)
      else name)"
  by pat_completeness auto

definition pending :: "string fset \<Rightarrow> string \<Rightarrow> nat \<Rightarrow> string set" where
  "pending used prefix_base index =
     fset used \<inter> (\<lambda>i. prefix_base @ str_nat i) ` {index..}"

lemma pending_finite: "finite (pending used prefix_base index)"
  by (simp add: pending_def)

lemma pending_step:
  assumes "prefix_base @ str_nat index |\<in>| used"
  shows "card (pending used prefix_base (Suc index)) < card (pending used prefix_base index)"
proof (rule psubset_card_mono[OF pending_finite])
  let ?c = "prefix_base @ str_nat index"
  have "?c \<in> pending used prefix_base index"
    using assms by (auto simp: pending_def)
  moreover have "?c \<notin> pending used prefix_base (Suc index)"
    by (auto simp: pending_def dest!: str_nat_inj)
  moreover have "pending used prefix_base (Suc index) \<subseteq> pending used prefix_base index"
    by (auto simp: pending_def)
  ultimately show "pending used prefix_base (Suc index) \<subset> pending used prefix_base index"
    by blast
qed

termination auto_name_loop
proof (relation "measure (\<lambda>(used, prefix_base, name, index).
         if name |\<in>| used then Suc (card (pending used prefix_base index)) else 0)")
  show "wf (measure (\<lambda>(used, prefix_base, name, index).
         if name |\<in>| used then Suc (card (pending used prefix_base index)) else 0))"
    by simp
next
  fix used :: "string fset" and prefix_base name :: string and index :: nat
  assume "name |\<in>| used"
  then show "((used, prefix_base, prefix_base @ str_nat index, index + 1),
              used, prefix_base, name, index)
        \<in> measure (\<lambda>(used, prefix_base, name, index).
         if name |\<in>| used then Suc (card (pending used prefix_base index)) else 0)"
    using pending_step[of prefix_base index used] by simp
qed

declare auto_name_loop.simps [simp del]

lemma auto_name_loop_unused:
  "name |\<notin>| used \<Longrightarrow> auto_name_loop used prefix_base name index = name"
  by (subst auto_name_loop.simps) simp

lemma auto_name_loop_fresh: "auto_name_loop used prefix_base name index |\<notin>| used"
proof (induction used prefix_base name index rule: auto_name_loop.induct)
  case (1 used prefix_base name index)
  show ?case
  proof (cases "name |\<in>| used")
    case True
    with "1.IH" show ?thesis
      by (subst auto_name_loop.simps) simp
  next
    case False
    then show ?thesis by (simp add: auto_name_loop_unused)
  qed
qed

text \<open>
  When the starting name is taken, the loop returns \<open>prefix_base @ str_nat k\<close> for the
  least \<open>k\<close> from \<open>index\<close> on whose name is unused.
\<close>

lemma auto_name_loop_least:
  "name |\<in>| used \<Longrightarrow>
   \<exists>k\<ge>index. auto_name_loop used prefix_base name index = prefix_base @ str_nat k
     \<and> prefix_base @ str_nat k |\<notin>| used
     \<and> (\<forall>j. index \<le> j \<and> j < k \<longrightarrow> prefix_base @ str_nat j |\<in>| used)"
proof (induction used prefix_base name index rule: auto_name_loop.induct)
  case (1 used prefix_base name index)
  let ?c = "prefix_base @ str_nat index"
  have step: "auto_name_loop used prefix_base name index
      = auto_name_loop used prefix_base ?c (index + 1)"
    using "1.prems" by (subst auto_name_loop.simps) simp
  show ?case
  proof (cases "?c |\<in>| used")
    case False
    then have "auto_name_loop used prefix_base name index = ?c"
      using step by (simp add: auto_name_loop_unused)
    with False show ?thesis by (intro exI[of _ index]) auto
  next
    case True
    from "1.IH"[OF "1.prems" True] obtain k where k: "index + 1 \<le> k"
      "auto_name_loop used prefix_base ?c (index + 1) = prefix_base @ str_nat k"
      "prefix_base @ str_nat k |\<notin>| used"
      "\<forall>j. index + 1 \<le> j \<and> j < k \<longrightarrow> prefix_base @ str_nat j |\<in>| used"
      by blast
    have "\<forall>j. index \<le> j \<and> j < k \<longrightarrow> prefix_base @ str_nat j |\<in>| used"
    proof (intro allI impI)
      fix j assume j: "index \<le> j \<and> j < k"
      show "prefix_base @ str_nat j |\<in>| used"
      proof (cases "j = index")
        case True
        with \<open>?c |\<in>| used\<close> show ?thesis by simp
      next
        case False
        with j k(4) show ?thesis by simp
      qed
    qed
    with k step show ?thesis by (intro exI[of _ k]) auto
  qed
qed

section \<open>The objects the class works with\<close>

text \<open>
  An operator (protobuf \<^verbatim>\<open>OperatorDef\<close>): its type, inputs, outputs and arguments,
  and the \<^verbatim>\<open>debug_info\<close> string that \<^verbatim>\<open>op_equal\<close> clears.
\<close>

record operator_def =
  op_type :: string
  op_input :: "blob list"
  op_output :: "blob list"
  op_arg :: "(string \<times> pyval) list"
  debug_info :: string

text \<open>
  A net (\<^verbatim>\<open>core.Net\<close>): its name, the operators of its \<^verbatim>\<open>_net.op\<close>, and the blob
  names the net has registered (only \<^verbatim>\<open>NextBlob\<close> and the layers' \<^verbatim>\<open>add_operators\<close>,
  both parameters below, look at them).
\<close>

record net =
  net_name :: string
  net_op :: "operator_def list"
  registered_blob_names :: "string list"

text \<open>What \<^verbatim>\<open>np.array(array, dtype)\<close> returns, as far as the class reads it.\<close>

datatype dtype = Int32 | Int64 | StrType | BoolType | OtherType

record ndarray =
  nd_dtype :: dtype
  nd_shape :: "int list"
  nd_values :: "pyval list"

text \<open>
  Schema fields: a \<^verbatim>\<open>schema.Scalar\<close> with its blob, or a \<^verbatim>\<open>schema.Struct\<close> with its
  ordered \<^verbatim>\<open>fields\<close>.
\<close>

datatype field = Scalar "blob option" | Struct "(string \<times> field) list"

text \<open>
  Optimizers, gradients and devices are objects the class only passes on; a
  regularizer is also asked for its \<^verbatim>\<open>apply_after_optimizer\<close> flag and tested with
  \<^verbatim>\<open>isinstance(regularizer, Regularizer)\<close>.
\<close>

type_synonym optimizer = string
type_synonym grad = string
type_synonym device = string

record regularizer =
  reg_name :: string
  apply_after_optimizer :: bool
  is_Regularizer :: bool

text \<open>
  A parameter of a layer: a \<^verbatim>\<open>layers.LayerParameter\<close>, a \<^verbatim>\<open>ParameterInfo\<close> or some other
  object; its \<^verbatim>\<open>parameter\<close> attribute is a blob reference or not.
\<close>

datatype param_class = LayerParameter | ParameterInfo | OtherParam

datatype pyref = BlobReference string | NotBlobReference

record param =
  param_class :: param_class
  parameter :: pyref
  initializer :: "operator_def option"
  optimizer :: "optimizer option"
  ps_param :: "string option"
  regularizer :: "regularizer option"

record layer =
  layer_name :: string
  get_parameters :: "param list"
  layer_output_schema :: field

datatype py_version = Python2 | Python3

datatype key = StrKey string | OtherKey int

text \<open>
  The values of a breakdown map: \<^verbatim>\<open>None\<close>, a boolean, an integer, a (finite) float or a
  string.
\<close>

datatype map_value =
    NoneValue
  | BoolValue bool
  | IntValue int
  | FloatValue real
  | StrValue string

subsection \<open>The state of a \<^verbatim>\<open>LayerModelHelper\<close>\<close>

text \<open>
  The attributes of the object, under their Python names (a leading underscore is
  dropped: \<open>layer_names\<close> is \<^verbatim>\<open>_layer_names\<close>, \<open>loss\<close> is \<^verbatim>\<open>_loss\<close>, and so on).
  \<open>net\<close> and \<open>params\<close> are inherited from \<^verbatim>\<open>ModelHelper\<close>.
\<close>

record model =
  net :: net
  params :: "blob list"
  layer_names :: "string fset"
  layers :: "layer list"
  param_to_shape :: "(string \<times> int list option) list"
  seed :: "int option"
  sequence_seed :: bool
  param_to_optim :: "(string \<times> optimizer option) list"
  param_to_reg :: "(blob \<times> regularizer option) list"
  default_optimizer :: "optimizer option"
  loss :: "field option"
  output_schema :: "field option"
  breakdown_map :: "(key \<times> map_value) list option"
  input_feature_schema :: field
  trainer_extra_schema :: field
  metrics_schema :: field
  global_constants :: "(string \<times> blob) list"
  global_constant_initializers :: "(blob \<times> operator_def) list"
  param_init_net :: net
  initialize_params :: bool

subsection \<open>The framework around the class\<close>

text \<open>
  The functions of the host framework that the class calls are not part of the file.
  They are parameters of the embedding, collected in one record; every theorem holds
  for every framework. A call that can raise returns \<open>error + _\<close>.
  \<^item> \<open>NextBlob\<close>: \<^verbatim>\<open>net.NextBlob(name)\<close>, returning the blob and the net it updated;
  \<^item> \<open>Net\<close>: \<^verbatim>\<open>core.Net(name)\<close>;
  \<^item> \<open>CreateOperator\<close>: \<^verbatim>\<open>core.CreateOperator(type, inputs, output, **kwargs)\<close>;
  \<^item> \<open>np_array\<close>: \<^verbatim>\<open>np.array(array)\<close> or \<^verbatim>\<open>np.array(array, dtype=dtype)\<close>;
  \<^item> \<open>get_parameter_name\<close>: \<^verbatim>\<open>parameter_sharing_context.get_parameter_name\<close>;
  \<^item> \<open>ScopedName\<close>: \<^verbatim>\<open>core.ScopedName\<close>;
  \<^item> \<open>new_LayerParameter\<close>: the constructor \<^verbatim>\<open>layers.LayerParameter(...)\<close>;
  \<^item> \<open>add_operators\<close>: \<^verbatim>\<open>layer.add_operators(net, param_init_net)\<close>, returning the two
    nets as it leaves them;
  \<^item> \<open>new_Struct\<close>: the constructor \<^verbatim>\<open>schema.Struct(*fields)\<close>;
  \<^item> \<open>Struct_add\<close>: \<^verbatim>\<open>+\<close> on schema fields;
  \<^item> \<open>Struct_names\<close>: the names \<open>n\<close> for which \<^verbatim>\<open>n in field\<close> holds (finitely many);
  \<^item> \<open>NewRecord\<close>: \<^verbatim>\<open>schema.NewRecord(net, schema)\<close>, returning the record and the net;
  \<^item> \<open>call_regularizer\<close>: \<^verbatim>\<open>regularizer(train_net, train_init_net, param, grad)\<close>,
    returning the blob it returns and the two nets (\<^verbatim>\<open>grad\<close> is \<^verbatim>\<open>None\<close> when the call
    passes three arguments);
  \<^item> \<open>call_optimizer\<close>: \<^verbatim>\<open>optimizer(train_net, train_init_net, param, grad)\<close> under
    \<^verbatim>\<open>core.DeviceScope(device)\<close>, returning the two nets;
  \<^item> \<open>get_param_device\<close>: \<^verbatim>\<open>optimizer.get_param_device\<close>;
  \<^item> \<open>CPU\<close>: \<^verbatim>\<open>core.DeviceOption(caffe2_pb2.CPU)\<close>;
  \<^item> \<open>python\<close>: the version of the interpreter.
\<close>

record env =
  NextBlob :: "net \<Rightarrow> string \<Rightarrow> blob \<times> net"
  Net :: "string \<Rightarrow> net"
  CreateOperator ::
    "string \<Rightarrow> blob list \<Rightarrow> blob \<Rightarrow> (string \<times> pyval) list \<Rightarrow> error + operator_def"
  np_array :: "pyval \<Rightarrow> string option \<Rightarrow> error + ndarray"
  get_parameter_name :: "string \<Rightarrow> string"
  ScopedName :: "string \<Rightarrow> string"
  new_LayerParameter ::
    "blob \<Rightarrow> operator_def option \<Rightarrow> optimizer option \<Rightarrow> string option
       \<Rightarrow> regularizer option \<Rightarrow> error + param"
  add_operators :: "layer \<Rightarrow> net \<times> net \<Rightarrow> (error + unit) \<times> (net \<times> net)"
  new_Struct :: "(string \<times> field) list \<Rightarrow> error + field"
  Struct_add :: "field \<Rightarrow> field \<Rightarrow> error + field"
  Struct_names :: "field \<Rightarrow> string list"
  NewRecord :: "net \<Rightarrow> field \<Rightarrow> (error + field) \<times> net"
  call_regularizer ::
    "regularizer \<Rightarrow> net \<times> net \<Rightarrow> blob \<Rightarrow> grad option \<Rightarrow> (error + blob) \<times> (net \<times> net)"
  call_optimizer ::
    "optimizer \<Rightarrow> device \<Rightarrow> net \<times> net \<Rightarrow> blob \<Rightarrow> grad option
       \<Rightarrow> (error + unit) \<times> (net \<times> net)"
  get_param_device ::
    "blob \<Rightarrow> grad option \<Rightarrow> (blob \<times> device) list \<Rightarrow> device \<Rightarrow> error + device"
  CPU :: device
  python :: py_version

section \<open>The methods\<close>

subsection \<open>Output schema, loss and the simple setters\<close>

definition clear_output_schema :: "model \<Rightarrow> model" where
  "clear_output_schema s = s\<lparr>output_schema := None\<rparr>"

definition set_initialize_params :: "model \<Rightarrow> bool \<Rightarrow> model" where
  "set_initialize_params s b = s\<lparr>initialize_params := b\<rparr>"

definition store_seed :: "model \<Rightarrow> int option \<Rightarrow> bool \<Rightarrow> model" where
  "store_seed s sd sequence = s\<lparr>seed := sd, sequence_seed := sequence\<rparr>"

definition default_optimizer_setter :: "model \<Rightarrow> optimizer option \<Rightarrow> model" where
  "default_optimizer_setter s opt = s\<lparr>default_optimizer := opt\<rparr>"

text \<open>
  The properties \<^verbatim>\<open>output_schema\<close> and \<^verbatim>\<open>loss\<close>: the getter asserts that the
  attribute is not \<^verbatim>\<open>None\<close>, the setter that it is. The value assigned is any Python
  value, \<^verbatim>\<open>None\<close> included.
\<close>

definition output_schema_getter :: "model \<Rightarrow> error + field" where
  "output_schema_getter s =
     (case output_schema s of None \<Rightarrow> Inl AssertionError | Some v \<Rightarrow> Inr v)"

definition output_schema_setter :: "model \<Rightarrow> field option \<Rightarrow> (error + unit) \<times> model" where
  "output_schema_setter s schema =
     (if output_schema s \<noteq> None then (Inl AssertionError, s)
      else (Inr (), s\<lparr>output_schema := schema\<rparr>))"

definition loss_getter :: "model \<Rightarrow> error + field" where
  "loss_getter s = (case loss s of None \<Rightarrow> Inl AssertionError | Some v \<Rightarrow> Inr v)"

definition loss_setter :: "model \<Rightarrow> field option \<Rightarrow> (error + unit) \<times> model" where
  "loss_setter s l =
     (if loss s \<noteq> None then (Inl AssertionError, s)
      else (Inr (), s\<lparr>loss := l\<rparr>))"

definition has_loss :: "model \<Rightarrow> bool" where
  "has_loss s = (loss s \<noteq> None)"

subsection \<open>The metrics schema\<close>

text \<open>
  \<^verbatim>\<open>
  def add_metric_field(self, name, value):
      assert name not in self._metrics_schema.fields, (...)
      self._metrics_schema = self._metrics_schema + schema.Struct((name, value))
  \<close>
  A \<^verbatim>\<open>Scalar\<close> has no \<^verbatim>\<open>fields\<close> attribute.
\<close>

definition add_metric_field ::
  "env \<Rightarrow> model \<Rightarrow> string \<Rightarrow> field \<Rightarrow> (error + unit) \<times> model" where
  "add_metric_field env s name v =
     (case metrics_schema s of
        Scalar _ \<Rightarrow> (Inl AttributeError, s)
      | Struct fs \<Rightarrow>
          if dict_contains name fs then (Inl AssertionError, s)
          else (case new_Struct env [(name, v)] of
                  Inl e \<Rightarrow> (Inl e, s)
                | Inr single \<Rightarrow>
                    (case Struct_add env (metrics_schema s) single of
                       Inl e \<Rightarrow> (Inl e, s)
                     | Inr merged \<Rightarrow> (Inr (), s\<lparr>metrics_schema := merged\<rparr>))))"

subsection \<open>Global constants\<close>

text \<open>
  \<^verbatim>\<open>_get_global_constant_initializer_op(blob_name, array, dtype, initializer)\<close>: with an
  array, the initializer must be \<^verbatim>\<open>None\<close> and the operator is a \<^verbatim>\<open>GivenTensor...Fill\<close>
  chosen by the dtype of the array; without one, the initializer must be given and is
  called on the blob name.
\<close>

definition fill_op_name :: "dtype \<Rightarrow> string" where
  "fill_op_name d =
     (if d = Int32 then ''GivenTensorIntFill''
      else if d = Int64 then ''GivenTensorInt64Fill''
      else if d = StrType then ''GivenTensorStringFill''
      else if d = BoolType then ''GivenTensorBoolFill''
      else ''GivenTensorFill'')"

definition get_global_constant_initializer_op ::
  "env \<Rightarrow> blob \<Rightarrow> pyval option \<Rightarrow> string option \<Rightarrow> (blob \<Rightarrow> error + operator_def) option
     \<Rightarrow> error + operator_def" where
  "get_global_constant_initializer_op env blob_name array dtype init =
     (case array of
        Some a \<Rightarrow>
          (case init of
             Some _ \<Rightarrow> Inl AssertionError
           | None \<Rightarrow>
               (case np_array env a dtype of
                  Inl e \<Rightarrow> Inl e
                | Inr arr \<Rightarrow>
                    CreateOperator env (fill_op_name (nd_dtype arr)) [] blob_name
                      [(''shape'', PyList (map PyInt (nd_shape arr))),
                       (''values'', PyList (nd_values arr))]))
      | None \<Rightarrow>
          (case init of
             None \<Rightarrow> Inl AssertionError
           | Some f \<Rightarrow> f blob_name))"

text \<open>
  \<^verbatim>\<open>add_global_constant\<close>. The name is a string by its type, so the first assertion
  (\<^verbatim>\<open>isinstance(name, six.string_types)\<close>) holds. \<^verbatim>\<open>global_constants[name]\<close> is
  assigned before the initializer is built: when building it fails, the name stays
  registered.
\<close>

definition add_global_constant ::
  "env \<Rightarrow> model \<Rightarrow> string \<Rightarrow> pyval option \<Rightarrow> string option
     \<Rightarrow> (blob \<Rightarrow> error + operator_def) option \<Rightarrow> (error + blob) \<times> model" where
  "add_global_constant env s name array dtype init =
     (if dict_contains name (global_constants s) then (Inl AssertionError, s)
      else
        (case NextBlob env (net s) name of
           (blob_name, net') \<Rightarrow>
             (let s1 = s\<lparr>net := net',
                         global_constants := AList.update name blob_name (global_constants s)\<rparr>
              in case get_global_constant_initializer_op env blob_name array dtype init of
                   Inl e \<Rightarrow> (Inl e, s1)
                 | Inr initializer_op \<Rightarrow>
                     if dict_contains blob_name (global_constant_initializers s1)
                     then (Inl AssertionError, s1)
                     else (Inr blob_name,
                           s1\<lparr>global_constant_initializers :=
                                 AList.update blob_name initializer_op
                                   (global_constant_initializers s1)\<rparr>))))"

definition op_equal :: "operator_def \<Rightarrow> operator_def \<Rightarrow> bool" where
  "op_equal operator1 operator2 =
     (operator1\<lparr>debug_info := ''''\<rparr> = operator2\<lparr>debug_info := ''''\<rparr>)"

text \<open>
  \<^verbatim>\<open>maybe_add_global_constant\<close>: \<^verbatim>\<open>self.global_constant_initializers[blob_name]\<close> raises
  \<^verbatim>\<open>KeyError\<close> when the blob has no initializer.
\<close>

definition maybe_add_global_constant ::
  "env \<Rightarrow> model \<Rightarrow> string \<Rightarrow> pyval option \<Rightarrow> string option
     \<Rightarrow> (blob \<Rightarrow> error + operator_def) option \<Rightarrow> (error + blob) \<times> model" where
  "maybe_add_global_constant env s name array dtype init =
     (case map_of (global_constants s) name of
        Some blob_name \<Rightarrow>
          (case get_global_constant_initializer_op env blob_name array dtype init of
             Inl e \<Rightarrow> (Inl e, s)
           | Inr initializer_op \<Rightarrow>
               (case map_of (global_constant_initializers s) blob_name of
                  None \<Rightarrow> (Inl KeyError, s)
                | Some stored \<Rightarrow>
                    if op_equal initializer_op stored then (Inr blob_name, s)
                    else (Inl AssertionError, s)))
      | None \<Rightarrow> add_global_constant env s name array dtype init)"

text \<open>\<^verbatim>\<open>_init_global_constants\<close>: the two dicts are emptied, then three constants added.\<close>

definition init_global_constants :: "env \<Rightarrow> model \<Rightarrow> (error + unit) \<times> model" where
  "init_global_constants env s =
     (let s0 = s\<lparr>global_constants := [], global_constant_initializers := []\<rparr> in
      case add_global_constant env s0 ''ONE'' (Some (PyFloat 1)) None None of
        (Inl e, s1) \<Rightarrow> (Inl e, s1)
      | (Inr _, s1) \<Rightarrow>
          (case add_global_constant env s1 ''ZERO'' (Some (PyFloat 0)) None None of
             (Inl e, s2) \<Rightarrow> (Inl e, s2)
           | (Inr _, s2) \<Rightarrow>
               (case add_global_constant env s2 ''ZERO_RANGE''
                       (Some (PyList [PyInt 0, PyInt 0])) (Some ''int32'') None of
                  (Inl e, s3) \<Rightarrow> (Inl e, s3)
                | (Inr _, s3) \<Rightarrow> (Inr (), s3))))"

text \<open>
  \<^verbatim>\<open>
  def _add_global_constants(self, init_net):
      for initializer_op in viewvalues(self.global_constant_initializers):
          init_net._net.op.extend([initializer_op])
  \<close>
\<close>

primrec extend_ops :: "operator_def list \<Rightarrow> net \<Rightarrow> net" where
  "extend_ops [] init_net = init_net"
| "extend_ops (initializer_op # rest) init_net =
     extend_ops rest (init_net\<lparr>net_op := net_op init_net @ [initializer_op]\<rparr>)"

definition add_global_constants :: "model \<Rightarrow> net \<Rightarrow> net" where
  "add_global_constants s init_net =
     extend_ops (map snd (global_constant_initializers s)) init_net"

definition create_init_net :: "env \<Rightarrow> model \<Rightarrow> string \<Rightarrow> net" where
  "create_init_net env s name = add_global_constants s (Net env name)"

definition GetOne :: "model \<Rightarrow> error + blob" where
  "GetOne s = (case map_of (global_constants s) ''ONE'' of
                 None \<Rightarrow> Inl KeyError | Some b \<Rightarrow> Inr b)"

subsection \<open>Parameters and layers\<close>

text \<open>
  \<^verbatim>\<open>
  def _validate_param_shape(self, param_name, shape):
      if param_name not in self._param_to_shape:
          return
      ref_shape = self._param_to_shape[param_name]
      if shape != ref_shape:
          raise ValueError(...)
  \<close>
  A shape is \<^verbatim>\<open>None\<close> or a list of integers.
\<close>

definition validate_param_shape :: "model \<Rightarrow> string \<Rightarrow> int list option \<Rightarrow> error + unit" where
  "validate_param_shape s param_name shape =
     (case map_of (param_to_shape s) param_name of
        None \<Rightarrow> Inr ()
      | Some ref_shape \<Rightarrow> if shape \<noteq> ref_shape then Inl ValueError else Inr ())"

text \<open>
  The \<^verbatim>\<open>param_name\<close> argument of \<^verbatim>\<open>create_param\<close> is a blob reference, a string or
  something else; \<^verbatim>\<open>raise "Unsupported type for param_name"\<close> raises \<^verbatim>\<open>TypeError\<close>, a
  string not being an exception. The \<^verbatim>\<open>initializer\<close> argument is a non-empty tuple:
  its first component (the operator type) and the list of the components after it
  (dicts of operator arguments).
\<close>

datatype name_arg = BlobName blob | StrName string | OtherName

type_synonym initializer_arg = "string \<times> (string \<times> pyval) list list"

definition resolve_param_name :: "env \<Rightarrow> name_arg \<Rightarrow> error + string" where
  "resolve_param_name env param_name =
     (case param_name of
        BlobName b \<Rightarrow> Inr b
      | StrName n \<Rightarrow> Inr (get_parameter_name env n)
      | OtherName \<Rightarrow> Inl TypeError)"

definition init_op_args_of ::
  "initializer_arg \<Rightarrow> int list option \<Rightarrow> error + (string \<times> pyval) list" where
  "init_op_args_of init shape =
     (case (if length (snd init) = 0 then Inr []
            else if length (snd init) = 1 then Inr (hd (snd init))
            else Inl AssertionError) of
        Inl e \<Rightarrow> Inl e
      | Inr init_op_args \<Rightarrow>
          (case shape of
             None \<Rightarrow> Inr init_op_args
           | Some sh \<Rightarrow>
               if dict_contains ''shape'' init_op_args then Inl AssertionError
               else Inr (AList.update ''shape'' (PyList (map PyInt sh)) init_op_args)))"

text \<open>
  \<open>build_param\<close> is \<^verbatim>\<open>create_param\<close> up to and including the construction of the
  \<^verbatim>\<open>LayerParameter\<close>: it returns the resolved name and the parameter object, and does not
  touch the state. \<open>create_param\<close> then validates the shape and records it.
\<close>

definition build_param ::
  "env \<Rightarrow> model \<Rightarrow> name_arg \<Rightarrow> int list option \<Rightarrow> initializer_arg \<Rightarrow> optimizer option
     \<Rightarrow> string option \<Rightarrow> regularizer option \<Rightarrow> error + (string \<times> param)" where
  "build_param env s param_name shape init opt ps reg =
     (case resolve_param_name env param_name of
        Inl e \<Rightarrow> Inl e
      | Inr name \<Rightarrow>
          (case init_op_args_of init shape of
             Inl e \<Rightarrow> Inl e
           | Inr init_op_args \<Rightarrow>
               (case (if initialize_params s
                      then (case CreateOperator env (fst init) [] name init_op_args of
                              Inl e \<Rightarrow> Inl e | Inr initializer_op \<Rightarrow> Inr (Some initializer_op))
                      else Inr None) of
                  Inl e \<Rightarrow> Inl e
                | Inr initializer_op \<Rightarrow>
                    (case new_LayerParameter env name initializer_op opt ps reg of
                       Inl e \<Rightarrow> Inl e
                     | Inr p \<Rightarrow> Inr (name, p)))))"

definition create_param ::
  "env \<Rightarrow> model \<Rightarrow> name_arg \<Rightarrow> int list option \<Rightarrow> initializer_arg \<Rightarrow> optimizer option
     \<Rightarrow> string option \<Rightarrow> regularizer option \<Rightarrow> (error + param) \<times> model" where
  "create_param env s param_name shape init opt ps reg =
     (case build_param env s param_name shape init opt ps reg of
        Inl e \<Rightarrow> (Inl e, s)
      | Inr (name, p) \<Rightarrow>
          (case validate_param_shape s name shape of
             Inl e \<Rightarrow> (Inl e, s)
           | Inr _ \<Rightarrow>
               (Inr p, s\<lparr>param_to_shape := AList.update name shape (param_to_shape s)\<rparr>)))"

text \<open>
  \<^verbatim>\<open>
  def next_layer_name(self, prefix):
      base_name = core.ScopedName(prefix)
      name = base_name
      index = 0
      while name in self._layer_names:
          name = base_name + '_auto_' + str(index)
          index += 1
      self._layer_names.add(name)
      return name
  \<close>
\<close>

definition next_layer_name :: "env \<Rightarrow> model \<Rightarrow> string \<Rightarrow> string \<times> model" where
  "next_layer_name env s prefix =
     (let base_name = ScopedName env prefix;
          name = auto_name_loop (layer_names s) (base_name @ ''_auto_'') base_name 0
      in (name, s\<lparr>layer_names := finsert name (layer_names s)\<rparr>))"

text \<open>
  The loop of \<^verbatim>\<open>add_layer\<close> over \<^verbatim>\<open>layer.get_parameters()\<close>.
  \<^verbatim>\<open>param.optimizer or self.default_optimizer\<close> is the parameter's optimizer unless it
  is \<^verbatim>\<open>None\<close>. \<^verbatim>\<open>param_to_reg\<close> is keyed by the blob reference, which hashes and
  compares by its name.
\<close>

fun add_layer_params :: "model \<Rightarrow> param list \<Rightarrow> (error + unit) \<times> model" where
  "add_layer_params s [] = (Inr (), s)"
| "add_layer_params s (p # rest) =
     (case parameter p of
        NotBlobReference \<Rightarrow> (Inl AssertionError, s)
      | BlobReference b \<Rightarrow>
          (let s1 = s\<lparr>param_to_optim :=
                        AList.update b
                          (case optimizer p of Some opt \<Rightarrow> Some opt | None \<Rightarrow> default_optimizer s)
                          (param_to_optim s),
                      params := params s @ [b]\<rparr>
           in case param_class p of
                LayerParameter \<Rightarrow>
                  add_layer_params
                    (s1\<lparr>param_to_reg := AList.update b (regularizer p) (param_to_reg s1)\<rparr>) rest
              | ParameterInfo \<Rightarrow> add_layer_params s1 rest
              | OtherParam \<Rightarrow> (Inl ValueError, s1)))"

definition add_layer :: "env \<Rightarrow> model \<Rightarrow> layer \<Rightarrow> (error + field) \<times> model" where
  "add_layer env s layer =
     (case add_layer_params (s\<lparr>layers := layers s @ [layer]\<rparr>) (get_parameters layer) of
        (Inl e, s1) \<Rightarrow> (Inl e, s1)
      | (Inr _, s1) \<Rightarrow>
          (case add_operators env layer (net s1, param_init_net s1) of
             (res, (net', init')) \<Rightarrow>
               (case res of
                  Inl e \<Rightarrow> (Inl e, s1\<lparr>net := net', param_init_net := init'\<rparr>)
                | Inr _ \<Rightarrow>
                    (Inr (layer_output_schema layer),
                     s1\<lparr>net := net', param_init_net := init'\<rparr>))))"

definition get_parameter_blobs :: "model \<Rightarrow> pyref list" where
  "get_parameter_blobs s = concat (map (\<lambda>l. map parameter (get_parameters l)) (layers s))"

subsection \<open>Losses\<close>

text \<open>
  The \<^verbatim>\<open>loss\<close> argument of \<^verbatim>\<open>add_loss\<close>: \<^verbatim>\<open>None\<close>, a schema field, or another object.
  \<^verbatim>\<open>
  def add_loss(self, loss, name='unnamed'):
      assert loss is not None, "Added loss should not be None"
      assert isinstance(loss, schema.Scalar) or isinstance(loss, schema.Struct), (...)
      if self._loss is None:
          self._loss = schema.Struct((name, loss))
      else:
          prefix_base = name + '_auto_'
          index = 0
          prefix = name
          while prefix in self._loss:
              prefix = prefix_base + str(index)
              index += 1
          loss_struct = schema.Struct((prefix, loss))
          self._loss = self._loss + loss_struct
  \<close>
\<close>

datatype loss_arg = LossNone | LossField field | LossOther

definition add_loss :: "env \<Rightarrow> model \<Rightarrow> loss_arg \<Rightarrow> string \<Rightarrow> (error + unit) \<times> model" where
  "add_loss env s l name =
     (case l of
        LossNone \<Rightarrow> (Inl AssertionError, s)
      | LossOther \<Rightarrow> (Inl AssertionError, s)
      | LossField f \<Rightarrow>
          (case loss s of
             None \<Rightarrow>
               (case new_Struct env [(name, f)] of
                  Inl e \<Rightarrow> (Inl e, s)
                | Inr single \<Rightarrow> (Inr (), s\<lparr>loss := Some single\<rparr>))
           | Some current \<Rightarrow>
               (let prefix = auto_name_loop (fset_of_list (Struct_names env current))
                               (name @ ''_auto_'') name 0
                in case new_Struct env [(prefix, f)] of
                     Inl e \<Rightarrow> (Inl e, s)
                   | Inr loss_struct \<Rightarrow>
                       (case Struct_add env current loss_struct of
                          Inl e \<Rightarrow> (Inl e, s)
                        | Inr merged \<Rightarrow> (Inr (), s\<lparr>loss := Some merged\<rparr>)))))"

definition add_trainer_extra_schema :: "env \<Rightarrow> model \<Rightarrow> field \<Rightarrow> (error + unit) \<times> model" where
  "add_trainer_extra_schema env s extra =
     (case NewRecord env (net s) extra of
        (Inl e, net') \<Rightarrow> (Inl e, s\<lparr>net := net'\<rparr>)
      | (Inr trainer_extra_record, net') \<Rightarrow>
          (case Struct_add env (trainer_extra_schema s) trainer_extra_record of
             Inl e \<Rightarrow> (Inl e, s\<lparr>net := net'\<rparr>)
           | Inr merged \<Rightarrow> (Inr (), s\<lparr>net := net', trainer_extra_schema := merged\<rparr>)))"

subsection \<open>Regularizers and optimizers\<close>

text \<open>
  The two nets a training method works on are threaded through the calls of the
  regularizers and optimizers. Each method also returns the calls it made, in order:
  the callee, the parameter and the gradient it passed, and for a regularizer what
  the call returned.
\<close>

record reg_call =
  rc_regularizer :: regularizer
  rc_param :: blob
  rc_grad :: "grad option"
  rc_result :: "error + blob"


text \<open>
  \<^verbatim>\<open>
  def apply_regularizers_on_loss(self, train_net, train_init_net, blob_to_device=None):
      for param, regularizer in viewitems(self.param_to_reg):
          if regularizer is None or regularizer.apply_after_optimizer:
              continue
          assert isinstance(regularizer, Regularizer)
          added_loss_blob = regularizer(train_net, train_init_net, param)
          self.add_loss(schema.Scalar(blob=added_loss_blob), str(added_loss_blob))
  \<close>
\<close>

fun regularizers_on_loss ::
  "env \<Rightarrow> (blob \<times> regularizer option) list \<Rightarrow> model \<Rightarrow> net \<times> net
     \<Rightarrow> (error + unit) \<times> model \<times> (net \<times> net) \<times> reg_call list" where
  "regularizers_on_loss env [] s nets = (Inr (), s, nets, [])"
| "regularizers_on_loss env ((param, reg) # rest) s nets =
     (case reg of
        None \<Rightarrow> regularizers_on_loss env rest s nets
      | Some r \<Rightarrow>
          if apply_after_optimizer r then regularizers_on_loss env rest s nets
          else if \<not> is_Regularizer r then (Inl AssertionError, s, nets, [])
          else
            (case call_regularizer env r nets param None of
               (Inl e, nets') \<Rightarrow>
                 (Inl e, s, nets',
                  [\<lparr>rc_regularizer = r, rc_param = param, rc_grad = None, rc_result = Inl e\<rparr>])
             | (Inr added_loss_blob, nets') \<Rightarrow>
                 (let c = \<lparr>rc_regularizer = r, rc_param = param, rc_grad = None,
                           rc_result = Inr added_loss_blob\<rparr>
                  in case add_loss env s (LossField (Scalar (Some added_loss_blob)))
                            added_loss_blob of
                       (Inl e, s') \<Rightarrow> (Inl e, s', nets', [c])
                     | (Inr _, s') \<Rightarrow>
                         (case regularizers_on_loss env rest s' nets' of
                            (res, s'', nets'', calls) \<Rightarrow> (res, s'', nets'', c # calls)))))"

definition apply_regularizers_on_loss ::
  "env \<Rightarrow> model \<Rightarrow> net \<times> net \<Rightarrow> (error + unit) \<times> model \<times> (net \<times> net) \<times> reg_call list" where
  "apply_regularizers_on_loss env s nets = regularizers_on_loss env (param_to_reg s) s nets"





subsection \<open>The breakdown map\<close>

text \<open>
  \<^verbatim>\<open>
  @breakdown_map.setter
  def breakdown_map(self, breakdown_map):
      assert isinstance(breakdown_map, dict)
      assert all(isinstance(k, six.string_types) for k in breakdown_map)
      assert sorted(list(breakdown_map.values())) == range(len(breakdown_map))
      self._breakdown_map = breakdown_map
  \<close>
  The argument is a dict or not a dict. What \<^verbatim>\<open>sorted\<close> and \<^verbatim>\<open>==\<close> do depends on the
  interpreter, so the comparison of Python values is written out.
\<close>

datatype breakdown_arg = NotDict | Dict "(key \<times> map_value) list"

definition is_string_key :: "key \<Rightarrow> bool" where
  "is_string_key k = (case k of StrKey _ \<Rightarrow> True | OtherKey _ \<Rightarrow> False)"

text \<open>Booleans, integers and floats are numbers and compare by value.\<close>

definition number_of :: "map_value \<Rightarrow> real option" where
  "number_of v =
     (case v of
        BoolValue b \<Rightarrow> Some (if b then 1 else 0)
      | IntValue i \<Rightarrow> Some (real_of_int i)
      | FloatValue x \<Rightarrow> Some x
      | _ \<Rightarrow> None)"

text \<open>\<^verbatim>\<open>a == b\<close>: numbers by value, anything else only with its like.\<close>

definition py_eq :: "map_value \<Rightarrow> map_value \<Rightarrow> bool" where
  "py_eq a b =
     (case number_of a of
        Some x \<Rightarrow> (case number_of b of Some y \<Rightarrow> x = y | None \<Rightarrow> False)
      | None \<Rightarrow> (case number_of b of Some _ \<Rightarrow> False | None \<Rightarrow> a = b))"

text \<open>Strings are ordered character by character, by their codes.\<close>

fun str_lt :: "string \<Rightarrow> string \<Rightarrow> bool" where
  "str_lt [] [] = False"
| "str_lt [] (y # ys) = True"
| "str_lt (x # xs) [] = False"
| "str_lt (x # xs) (y # ys) =
     (if (of_char x :: nat) < of_char y then True
      else if (of_char y :: nat) < of_char x then False
      else str_lt xs ys)"

text \<open>
  \<^verbatim>\<open>a < b\<close> in Python 3: defined between two numbers and between two strings, a
  \<^verbatim>\<open>TypeError\<close> otherwise (also between \<^verbatim>\<open>None\<close> and \<^verbatim>\<open>None\<close>).
\<close>

definition py3_lt :: "map_value \<Rightarrow> map_value \<Rightarrow> error + bool" where
  "py3_lt a b =
     (case number_of a of
        Some x \<Rightarrow> (case number_of b of Some y \<Rightarrow> Inr (x < y) | None \<Rightarrow> Inl TypeError)
      | None \<Rightarrow>
          (case a of
             StrValue u \<Rightarrow> (case b of StrValue w \<Rightarrow> Inr (str_lt u w) | _ \<Rightarrow> Inl TypeError)
           | _ \<Rightarrow> Inl TypeError))"

text \<open>
  \<^verbatim>\<open>a < b\<close> in Python 2 never raises: \<^verbatim>\<open>None\<close> is below everything else, numbers are
  below strings.
\<close>

definition py2_rank :: "map_value \<Rightarrow> nat" where
  "py2_rank v = (case v of NoneValue \<Rightarrow> 0 | StrValue _ \<Rightarrow> 2 | _ \<Rightarrow> 1)"

definition py2_lt :: "map_value \<Rightarrow> map_value \<Rightarrow> bool" where
  "py2_lt a b =
     (case number_of a of
        Some x \<Rightarrow> (case number_of b of Some y \<Rightarrow> x < y | None \<Rightarrow> py2_rank a < py2_rank b)
      | None \<Rightarrow>
          (case a of
             StrValue u \<Rightarrow> (case b of StrValue w \<Rightarrow> str_lt u w | _ \<Rightarrow> py2_rank a < py2_rank b)
           | _ \<Rightarrow> py2_rank a < py2_rank b))"

definition py_lt :: "py_version \<Rightarrow> map_value \<Rightarrow> map_value \<Rightarrow> error + bool" where
  "py_lt v a b = (case v of Python2 \<Rightarrow> Inr (py2_lt a b) | Python3 \<Rightarrow> py3_lt a b)"

text \<open>
  \<^verbatim>\<open>sorted(values)\<close>: a stable sort that only asks \<^verbatim>\<open>x < y\<close> and raises what the
  comparison raises. Each value is inserted, from left to right, before the first value
  it is less than. On the values above two values compare without error exactly when both
  are numbers or both are strings, so what the sort returns, and whether it raises, does
  not depend on the order in which it compares.
\<close>

fun insert_value ::
  "py_version \<Rightarrow> map_value \<Rightarrow> map_value list \<Rightarrow> error + map_value list" where
  "insert_value v x [] = Inr [x]"
| "insert_value v x (y # ys) =
     (case py_lt v x y of
        Inl e \<Rightarrow> Inl e
      | Inr x_lt_y \<Rightarrow>
          if x_lt_y then Inr (x # y # ys)
          else (case insert_value v x ys of Inl e \<Rightarrow> Inl e | Inr r \<Rightarrow> Inr (y # r)))"

fun insert_values ::
  "py_version \<Rightarrow> map_value list \<Rightarrow> map_value list \<Rightarrow> error + map_value list" where
  "insert_values v acc [] = Inr acc"
| "insert_values v acc (x # xs) =
     (case insert_value v x acc of
        Inl e \<Rightarrow> Inl e
      | Inr acc' \<Rightarrow> insert_values v acc' xs)"

definition py_sorted :: "py_version \<Rightarrow> map_value list \<Rightarrow> error + map_value list" where
  "py_sorted v xs = insert_values v [] xs"

text \<open>
  \<^verbatim>\<open>xs == range(n)\<close>. In Python 2 \<^verbatim>\<open>range(n)\<close> is the list \<^verbatim>\<open>[0, ..., n-1]\<close>, and two
  lists are equal when they have the same length and equal elements. In Python 3 it is a
  range object, which no list is equal to.
\<close>

definition list_eq_range :: "py_version \<Rightarrow> map_value list \<Rightarrow> nat \<Rightarrow> bool" where
  "list_eq_range v xs n =
     (case v of
        Python2 \<Rightarrow> list_all2 py_eq xs (map (\<lambda>i. IntValue (int i)) [0..<n])
      | Python3 \<Rightarrow> False)"

definition breakdown_map_setter ::
  "env \<Rightarrow> model \<Rightarrow> breakdown_arg \<Rightarrow> (error + unit) \<times> model" where
  "breakdown_map_setter env s arg =
     (case arg of
        NotDict \<Rightarrow> (Inl AssertionError, s)
      | Dict d \<Rightarrow>
          if \<not> list_all is_string_key (map fst d) then (Inl AssertionError, s)
          else
            (case py_sorted (python env) (map snd d) of
               Inl e \<Rightarrow> (Inl e, s)
             | Inr sorted_values \<Rightarrow>
                 if \<not> list_eq_range (python env) sorted_values (length d)
                 then (Inl AssertionError, s)
                 else (Inr (), s\<lparr>breakdown_map := Some d\<rparr>)))"

subsection \<open>Construction\<close>

text \<open>
  \<^verbatim>\<open>__init__\<close>, after \<^verbatim>\<open>super().__init__(name=name)\<close> has made the object \<open>base\<close> with
  its \<open>net\<close> and \<open>params\<close>. A schema is a value here, so \<^verbatim>\<open>clone()\<close> returns it. When
  the constructor raises there is no object.
\<close>

definition init_schema :: "env \<Rightarrow> net \<Rightarrow> field \<Rightarrow> bool \<Rightarrow> (error + field) \<times> net" where
  "init_schema env n sch keep_blobs =
     (if \<not> keep_blobs then NewRecord env n sch else (Inr sch, n))"

definition init :: "env \<Rightarrow> model \<Rightarrow> field \<Rightarrow> field \<Rightarrow> bool \<Rightarrow> error + model" where
  "init env base input_feature trainer_extra keep_blobs =
     (let s0 = base\<lparr>layer_names := {||}, layers := [], param_to_shape := [],
                    seed := None, sequence_seed := True,
                    param_to_optim := [], param_to_reg := [],
                    default_optimizer := None, loss := None, output_schema := None,
                    breakdown_map := None\<rparr>
      in case init_schema env (net s0) input_feature keep_blobs of
           (Inl e, _) \<Rightarrow> Inl e
         | (Inr ifs, net1) \<Rightarrow>
             (case init_schema env net1 trainer_extra keep_blobs of
                (Inl e, _) \<Rightarrow> Inl e
              | (Inr tes, net2) \<Rightarrow>
                  (case new_Struct env [] of
                     Inl e \<Rightarrow> Inl e
                   | Inr ms \<Rightarrow>
                       (case init_global_constants env
                               (s0\<lparr>net := net2, input_feature_schema := ifs,
                                   trainer_extra_schema := tes, metrics_schema := ms\<rparr>) of
                          (Inl e, _) \<Rightarrow> Inl e
                        | (Inr _, s1) \<Rightarrow>
                            Inr (s1\<lparr>param_init_net := create_init_net env s1 ''param_init_net'',
                                    initialize_params := True\<rparr>)))))"

section \<open>Sequences of method calls\<close>

text \<open>
  A call of a method of the object with its arguments, and the state the call leaves
  the object in, whether it returned or raised. \<open>run\<close> is a sequence of calls made one
  after the other on the same object. (\<^verbatim>\<open>__getattr__\<close> builds a layer through the layer
  registry, which calls the methods below, and ends in \<^verbatim>\<open>add_layer\<close>.)
\<close>

datatype call =
    Clear_output_schema
  | Set_initialize_params bool
  | Add_metric_field string field
  | Add_global_constant string "pyval option" "string option"
      "(blob \<Rightarrow> error + operator_def) option"
  | Maybe_add_global_constant string "pyval option" "string option"
      "(blob \<Rightarrow> error + operator_def) option"
  | Create_init_net string
  | Create_param name_arg "int list option" initializer_arg "optimizer option"
      "string option" "regularizer option"
  | Next_layer_name string
  | Add_layer layer
  | Get_parameter_blobs
  | Store_seed "int option" bool
  | Set_default_optimizer "optimizer option"
  | Get_output_schema
  | Set_output_schema "field option"
  | Get_loss
  | Set_loss "field option"
  | Has_loss
  | Add_loss loss_arg string
  | Add_trainer_extra_schema field
  | Apply_regularizers_on_loss "net \<times> net"
  | Apply_regularizers_after_optimizer "net \<times> net" "(string \<times> grad) list"
  | Apply_optimizers "net \<times> net" "(string \<times> grad) list" "(blob \<times> device) list option"
  | Set_breakdown_map breakdown_arg

fun invoke :: "env \<Rightarrow> call \<Rightarrow> model \<Rightarrow> model" where
  "invoke env Clear_output_schema s = clear_output_schema s"
| "invoke env (Set_initialize_params b) s = set_initialize_params s b"
| "invoke env (Add_metric_field name v) s = snd (add_metric_field env s name v)"
| "invoke env (Add_global_constant name array dtype ini) s =
     snd (add_global_constant env s name array dtype ini)"
| "invoke env (Maybe_add_global_constant name array dtype ini) s =
     snd (maybe_add_global_constant env s name array dtype ini)"
| "invoke env (Create_init_net name) s = s"
| "invoke env (Create_param param_name shape ini opt ps reg) s =
     snd (create_param env s param_name shape ini opt ps reg)"
| "invoke env (Next_layer_name prefix) s = snd (next_layer_name env s prefix)"
| "invoke env (Add_layer l) s = snd (add_layer env s l)"
| "invoke env Get_parameter_blobs s = s"
| "invoke env (Store_seed sd sequence) s = store_seed s sd sequence"
| "invoke env (Set_default_optimizer opt) s = default_optimizer_setter s opt"
| "invoke env Get_output_schema s = s"
| "invoke env (Set_output_schema v) s = snd (output_schema_setter s v)"
| "invoke env Get_loss s = s"
| "invoke env (Set_loss v) s = snd (loss_setter s v)"
| "invoke env Has_loss s = s"
| "invoke env (Add_loss l name) s = snd (add_loss env s l name)"
| "invoke env (Add_trainer_extra_schema extra) s = snd (add_trainer_extra_schema env s extra)"
| "invoke env (Apply_regularizers_on_loss nets) s =
     fst (snd (apply_regularizers_on_loss env s nets))"
| "invoke env (Apply_regularizers_after_optimizer nets grad_map) s = s"
| "invoke env (Apply_optimizers nets grad_map blob_to_device) s = s"
| "invoke env (Set_breakdown_map arg) s = snd (breakdown_map_setter env s arg)"

definition run :: "env \<Rightarrow> call list \<Rightarrow> model \<Rightarrow> model" where
  "run env calls s = foldl (\<lambda>s c. invoke env c s) s calls"

text \<open>The layer names that the calls of \<^verbatim>\<open>next_layer_name\<close> in a sequence return.\<close>

fun issued_names :: "env \<Rightarrow> call list \<Rightarrow> model \<Rightarrow> string list" where
  "issued_names env [] s = []"
| "issued_names env (c # cs) s =
     (case c of
        Next_layer_name prefix \<Rightarrow> [fst (next_layer_name env s prefix)]
      | _ \<Rightarrow> [])
     @ issued_names env cs (invoke env c s)"

section \<open>A small framework for examples\<close>

text \<open>
  One framework and one object on which the methods are run in the examples that
  follow the theorems: blobs and scoped names are the names given, a struct is built
  from the fields given, and adding two structs appends their fields.
\<close>

definition demo_np_array :: "pyval \<Rightarrow> string option \<Rightarrow> error + ndarray" where
  "demo_np_array a dtype =
     (case a of
        PyFloat x \<Rightarrow> Inr \<lparr>nd_dtype = OtherType, nd_shape = [], nd_values = [PyFloat x]\<rparr>
      | PyInt i \<Rightarrow> Inr \<lparr>nd_dtype = Int64, nd_shape = [], nd_values = [PyInt i]\<rparr>
      | PyList xs \<Rightarrow>
          Inr \<lparr>nd_dtype = (if dtype = Some ''int32'' then Int32 else Int64),
               nd_shape = [int (length xs)], nd_values = xs\<rparr>
      | _ \<Rightarrow> Inl TypeError)"

definition demo_Struct_add :: "field \<Rightarrow> field \<Rightarrow> error + field" where
  "demo_Struct_add a b =
     (case a of
        Struct xs \<Rightarrow> (case b of Struct ys \<Rightarrow> Inr (Struct (xs @ ys)) | Scalar _ \<Rightarrow> Inl TypeError)
      | Scalar _ \<Rightarrow> Inl TypeError)"

definition demo_env :: env where
  "demo_env =
     \<lparr>NextBlob = (\<lambda>n name. (name, n\<lparr>registered_blob_names := name # registered_blob_names n\<rparr>)),
      Net = (\<lambda>name. \<lparr>net_name = name, net_op = [], registered_blob_names = []\<rparr>),
      CreateOperator = (\<lambda>t ins out args.
         Inr \<lparr>op_type = t, op_input = ins, op_output = [out], op_arg = args,
              debug_info = ''''\<rparr>),
      np_array = demo_np_array,
      get_parameter_name = (\<lambda>n. n),
      ScopedName = (\<lambda>n. n),
      new_LayerParameter = (\<lambda>b i opt ps r.
         Inr \<lparr>param_class = LayerParameter, parameter = BlobReference b, initializer = i,
              optimizer = opt, ps_param = ps, regularizer = r\<rparr>),
      add_operators = (\<lambda>l nets. (Inr (), nets)),
      new_Struct = (\<lambda>fs. Inr (Struct fs)),
      Struct_add = demo_Struct_add,
      Struct_names = (\<lambda>f. case f of Struct fs \<Rightarrow> map fst fs | Scalar _ \<Rightarrow> []),
      NewRecord = (\<lambda>n f. (Inr f, n)),
      call_regularizer = (\<lambda>r nets p g. (Inr (p @ ''_'' @ reg_name r), nets)),
      call_optimizer = (\<lambda>opt d nets p g. (Inr (), nets)),
      get_param_device = (\<lambda>p g m d. Inr (case map_of m p of Some x \<Rightarrow> x | None \<Rightarrow> d)),
      CPU = ''CPU'',
      python = Python2\<rparr>"

definition empty_net :: "string \<Rightarrow> net" where
  "empty_net name = \<lparr>net_name = name, net_op = [], registered_blob_names = []\<rparr>"

definition demo_model :: model where
  "demo_model =
     \<lparr>net = empty_net ''demo'', params = [], layer_names = {||}, layers = [],
      param_to_shape = [], seed = None, sequence_seed = True, param_to_optim = [],
      param_to_reg = [], default_optimizer = None, loss = None, output_schema = None,
      breakdown_map = None, input_feature_schema = Struct [], trainer_extra_schema = Struct [],
      metrics_schema = Struct [], global_constants = [], global_constant_initializers = [],
      param_init_net = empty_net ''param_init_net'', initialize_params = True\<rparr>"

definition named_model :: model where
  "named_model = demo_model\<lparr>layer_names := {|''fc'', ''fc_auto_0''|}\<rparr>"

definition loss_a :: field where
  "loss_a = Scalar (Some ''loss_a'')"

definition loss_b :: field where
  "loss_b = Scalar (Some ''loss_b'')"

definition metrics_model :: model where
  "metrics_model = demo_model\<lparr>metrics_schema := Struct [(''auc'', Scalar (Some ''auc_blob''))]\<rparr>"

definition python3_env :: env where
  "python3_env = demo_env\<lparr>python := Python3\<rparr>"

definition breakdown_dict :: "(key \<times> map_value) list" where
  "breakdown_dict = [(StrKey ''country'', IntValue 1), (StrKey ''device'', IntValue 0)]"

definition mixed_dict :: "(key \<times> map_value) list" where
  "mixed_dict = [(StrKey ''a'', IntValue 1), (StrKey ''b'', StrValue ''x'')]"

definition one_op :: operator_def where
  "one_op = \<lparr>op_type = ''GivenTensorFill'', op_input = [], op_output = [''ONE''],
             op_arg = [(''shape'', PyList []), (''values'', PyList [PyFloat 1])],
             debug_info = ''''\<rparr>"

definition constants_model :: model where
  "constants_model =
     demo_model\<lparr>global_constants := [(''ONE'', ''ONE'')],
                global_constant_initializers := [(''ONE'', one_op\<lparr>debug_info := ''line 206''\<rparr>)]\<rparr>"





definition two_losses :: field where
  "two_losses = Struct [(''a'', loss_a), (''a_auto_0'', loss_b)]"

definition loss_model :: model where
  "loss_model = demo_model\<lparr>loss := Some two_losses\<rparr>"








definition shape_model :: model where
  "shape_model = demo_model\<lparr>param_to_shape := [(''fc/w'', Some [5])]\<rparr>"

definition constant_fill :: "string \<Rightarrow> int list \<Rightarrow> param" where
  "constant_fill name shape =
     \<lparr>param_class = LayerParameter, parameter = BlobReference name,
      initializer = Some \<lparr>op_type = ''ConstantFill'', op_input = [], op_output = [name],
                          op_arg = [(''shape'', PyList (map PyInt shape))], debug_info = ''''\<rparr>,
      optimizer = None, ps_param = None, regularizer = None\<rparr>"












section \<open>What a call leaves unchanged\<close>

text \<open>
  The loop of \<^verbatim>\<open>apply_regularizers_on_loss\<close> changes the object only through
  \<^verbatim>\<open>add_loss\<close>: what every \<^verbatim>\<open>add_loss\<close> preserves, the loop preserves.
\<close>

lemma regularizers_on_loss_preserves:
  assumes step: "\<And>s l name. P s \<Longrightarrow> P (snd (add_loss env s l name))"
  shows "P s \<Longrightarrow> P (fst (snd (regularizers_on_loss env items s nets)))"
proof (induction items arbitrary: s nets)
  case Nil
  then show ?case by simp
next
  case (Cons item rest)
  obtain param reg where item: "item = (param, reg)" by (cases item)
  show ?case
  proof (cases reg)
    case None
    with Cons item show ?thesis by simp
  next
    case (Some r)
    show ?thesis
    proof (cases "apply_after_optimizer r")
      case True
      with Cons item Some show ?thesis by simp
    next
      case False
      note flag = this
      show ?thesis
      proof (cases "is_Regularizer r")
        case False
        with Cons.prems item Some flag show ?thesis by simp
      next
        case True
        obtain res nets' where c: "call_regularizer env r nets param None = (res, nets')"
          by (cases "call_regularizer env r nets param None")
        show ?thesis
        proof (cases res)
          case (Inl e)
          with Cons.prems item Some flag True c show ?thesis by simp
        next
          case (Inr b)
          obtain res2 s' where a: "add_loss env s (LossField (Scalar (Some b))) b = (res2, s')"
            by (cases "add_loss env s (LossField (Scalar (Some b))) b")
          have s': "P s'"
            using step[OF Cons.prems, of "LossField (Scalar (Some b))" b] a by simp
          show ?thesis
          proof (cases res2)
            case (Inl e)
            with item Some flag True c Inr a s' show ?thesis by simp
          next
            case (Inr u)
            with Cons.IH[OF s', of nets'] item Some flag True c \<open>res = Inr b\<close> a
            show ?thesis by (auto split: prod.splits)
          qed
        qed
      qed
    qed
  qed
qed

text \<open>The setter of \<^verbatim>\<open>breakdown_map\<close> assigns \<^verbatim>\<open>_breakdown_map\<close> or nothing.\<close>

lemma breakdown_map_setter_frame:
  "snd (breakdown_map_setter env s arg) = s
   \<or> (\<exists>d. snd (breakdown_map_setter env s arg) = s\<lparr>breakdown_map := Some d\<rparr>)"
  by (auto simp: breakdown_map_setter_def split: breakdown_arg.splits sum.splits)

lemma add_layer_params_layer_names:
  "layer_names (snd (add_layer_params s ps)) = layer_names s"
  by (induction s ps rule: add_layer_params.induct)
     (auto simp: Let_def split: pyref.splits param_class.splits)

lemma add_loss_layer_names: "layer_names (snd (add_loss env s l name)) = layer_names s"
  by (auto simp: add_loss_def Let_def split: loss_arg.splits option.splits sum.splits)

lemma add_global_constant_layer_names:
  "layer_names (snd (add_global_constant env s name array dtype ini)) = layer_names s"
  by (auto simp: add_global_constant_def Let_def split: prod.splits sum.splits)

lemma invoke_layer_names:
  "layer_names (invoke env c s) =
     (case c of
        Next_layer_name prefix \<Rightarrow> finsert (fst (next_layer_name env s prefix)) (layer_names s)
      | _ \<Rightarrow> layer_names s)"
proof (cases c)
  case (Add_metric_field name v)
  then show ?thesis
    by (auto simp: add_metric_field_def split: field.splits sum.splits)
next
  case (Add_global_constant name array dtype ini)
  then show ?thesis by (simp add: add_global_constant_layer_names)
next
  case (Maybe_add_global_constant name array dtype ini)
  then show ?thesis
    by (auto simp: maybe_add_global_constant_def add_global_constant_layer_names
             split: option.splits sum.splits)
next
  case (Create_param param_name shape ini opt ps reg)
  then show ?thesis
    by (auto simp: create_param_def split: sum.splits prod.splits)
next
  case (Next_layer_name prefix)
  then show ?thesis by (simp add: next_layer_name_def Let_def)
next
  case (Add_layer l)
  obtain r s1 where a: "add_layer_params (s\<lparr>layers := layers s @ [l]\<rparr>) (get_parameters l) = (r, s1)"
    by (cases "add_layer_params (s\<lparr>layers := layers s @ [l]\<rparr>) (get_parameters l)")
  have "layer_names s1 = layer_names s"
    using add_layer_params_layer_names[of "s\<lparr>layers := layers s @ [l]\<rparr>" "get_parameters l"] a
    by simp
  with Add_layer a show ?thesis
    by (auto simp: add_layer_def split: sum.splits prod.splits)
next
  case (Add_loss l name)
  then show ?thesis by (simp add: add_loss_layer_names)
next
  case (Add_trainer_extra_schema extra)
  then show ?thesis
    by (auto simp: add_trainer_extra_schema_def split: sum.splits prod.splits)
next
  case (Apply_regularizers_on_loss nets)
  have "layer_names (fst (snd (regularizers_on_loss env (param_to_reg s) s nets))) = layer_names s"
    by (rule regularizers_on_loss_preserves[where P = "\<lambda>t. layer_names t = layer_names s"])
       (simp_all add: add_loss_layer_names)
  with Apply_regularizers_on_loss show ?thesis
    by (simp add: apply_regularizers_on_loss_def)
next
  case (Set_breakdown_map arg)
  then show ?thesis
    using breakdown_map_setter_frame[of env s arg] by auto
qed (simp_all add: clear_output_schema_def set_initialize_params_def store_seed_def
       default_optimizer_setter_def output_schema_setter_def loss_setter_def)

lemma issued_names_run:
  "distinct (issued_names env cs s)
   \<and> set (issued_names env cs s) \<inter> fset (layer_names s) = {}
   \<and> layer_names (run env cs s) = layer_names s |\<union>| fset_of_list (issued_names env cs s)"
proof (induction cs arbitrary: s)
  case Nil
  then show ?case by (simp add: run_def)
next
  case (Cons c cs)
  let ?s' = "invoke env c s"
  have IH: "distinct (issued_names env cs ?s')"
    "set (issued_names env cs ?s') \<inter> fset (layer_names ?s') = {}"
    "layer_names (run env cs ?s') = layer_names ?s' |\<union>| fset_of_list (issued_names env cs ?s')"
    using Cons.IH[of ?s'] by simp_all
  have r: "run env (c # cs) s = run env cs ?s'" by (simp add: run_def)
  show ?case
  proof (cases c)
    case (Next_layer_name prefix)
    let ?n = "fst (next_layer_name env s prefix)"
    have fresh: "?n |\<notin>| layer_names s"
      by (simp add: next_layer_name_def Let_def auto_name_loop_fresh)
    have ln: "layer_names ?s' = finsert ?n (layer_names s)"
      using Next_layer_name by (simp add: next_layer_name_def Let_def)
    from IH ln fresh Next_layer_name r show ?thesis by auto
  next
    case Clear_output_schema
    with IH r invoke_layer_names[of env c s] show ?thesis by auto
  qed (use IH r invoke_layer_names[of env c s] in auto)
qed

section \<open>Layer names\<close>

text \<open>
  Claim C9. Every call of \<^verbatim>\<open>next_layer_name(prefix)\<close> returns a name that is not in
  \<^verbatim>\<open>_layer_names\<close> and adds it, so the set grows by exactly one element; the name is the
  scoped base name when that is unused, and otherwise \<^verbatim>\<open>base + '_auto_' + str(i)\<close> for the
  least \<open>i\<close> whose name is unused. Over any sequence of method calls on the object, the
  names the calls of \<^verbatim>\<open>next_layer_name\<close> return are pairwise distinct, none was in the set
  before, and the set afterwards is the set before together with exactly these names.
\<close>

theorem next_layer_name_unique:
  "fst (next_layer_name env s prefix) |\<notin>| layer_names s
   \<and> layer_names (snd (next_layer_name env s prefix))
       = finsert (fst (next_layer_name env s prefix)) (layer_names s)
   \<and> fcard (layer_names (snd (next_layer_name env s prefix))) = Suc (fcard (layer_names s))
   \<and> (ScopedName env prefix |\<notin>| layer_names s
        \<longrightarrow> fst (next_layer_name env s prefix) = ScopedName env prefix)
   \<and> (ScopedName env prefix |\<in>| layer_names s
        \<longrightarrow> (\<exists>i. fst (next_layer_name env s prefix)
                    = ScopedName env prefix @ ''_auto_'' @ str_nat i
                 \<and> (\<forall>j<i. ScopedName env prefix @ ''_auto_'' @ str_nat j |\<in>| layer_names s)))
   \<and> distinct (issued_names env calls s)
   \<and> set (issued_names env calls s) \<inter> fset (layer_names s) = {}
   \<and> layer_names (run env calls s)
       = layer_names s |\<union>| fset_of_list (issued_names env calls s)"
proof -
  let ?base = "ScopedName env prefix"
  let ?n = "fst (next_layer_name env s prefix)"
  have n: "?n = auto_name_loop (layer_names s) (?base @ ''_auto_'') ?base 0"
    by (simp add: next_layer_name_def Let_def)
  have fresh: "?n |\<notin>| layer_names s"
    by (simp add: n auto_name_loop_fresh)
  have names: "layer_names (snd (next_layer_name env s prefix)) = finsert ?n (layer_names s)"
    by (simp add: next_layer_name_def Let_def)
  have card: "fcard (layer_names (snd (next_layer_name env s prefix))) = Suc (fcard (layer_names s))"
    using fresh by (simp add: names fcard_finsert_disjoint)
  have unused: "?base |\<notin>| layer_names s \<longrightarrow> ?n = ?base"
    by (simp add: n auto_name_loop_unused)
  have used: "?base |\<in>| layer_names s
        \<longrightarrow> (\<exists>i. ?n = ?base @ ''_auto_'' @ str_nat i
                 \<and> (\<forall>j<i. ?base @ ''_auto_'' @ str_nat j |\<in>| layer_names s))"
  proof
    assume "?base |\<in>| layer_names s"
    from auto_name_loop_least[OF this, of 0 "?base @ ''_auto_''"] obtain k where
      "auto_name_loop (layer_names s) (?base @ ''_auto_'') ?base 0 = (?base @ ''_auto_'') @ str_nat k"
      "\<forall>j. 0 \<le> j \<and> j < k \<longrightarrow> (?base @ ''_auto_'') @ str_nat j |\<in>| layer_names s"
      by blast
    then show "\<exists>i. ?n = ?base @ ''_auto_'' @ str_nat i
                 \<and> (\<forall>j<i. ?base @ ''_auto_'' @ str_nat j |\<in>| layer_names s)"
      using n by (intro exI[of _ k]) simp
  qed
  note seq = issued_names_run[of env calls s]
  show ?thesis
    apply (intro conjI)
           apply (rule fresh)
          apply (rule names)
         apply (rule card)
        apply (rule unused)
       apply (rule used)
      apply (rule seq[THEN conjunct1])
     apply (rule seq[THEN conjunct2, THEN conjunct1])
    apply (rule seq[THEN conjunct2, THEN conjunct2])
    done
qed

lemma str_nat_digits:
  "str_nat 0 = ''0''" "str_nat 1 = ''1''" "str_nat 2 = ''2''"
  by (simp_all add: str_nat.simps digit_char_def)

lemma named_model_names: "layer_names named_model = {|''fc'', ''fc_auto_0''|}"
  by (simp add: named_model_def demo_model_def)

lemma demo_ScopedName: "ScopedName demo_env p = p"
  by (simp add: demo_env_def)

lemma demo_next_fc:
  "next_layer_name demo_env named_model ''fc''
     = (''fc_auto_1'', named_model\<lparr>layer_names := {|''fc_auto_1'', ''fc'', ''fc_auto_0''|}\<rparr>)"
  by (simp add: next_layer_name_def Let_def named_model_names demo_ScopedName
        auto_name_loop.simps str_nat.simps digit_char_def)

lemma demo_next_fc2:
  "fst (next_layer_name demo_env
          (named_model\<lparr>layer_names := {|''fc_auto_1'', ''fc'', ''fc_auto_0''|}\<rparr>) ''fc'')
     = ''fc_auto_2''"
  by (simp add: next_layer_name_def Let_def demo_ScopedName
        auto_name_loop.simps str_nat.simps digit_char_def)

lemma demo_next_out: "fst (next_layer_name demo_env named_model ''out'') = ''out''"
  by (simp add: next_layer_name_def Let_def named_model_names demo_ScopedName
        auto_name_loop.simps)

theorem next_layer_name_unique_witness:
  "ScopedName demo_env ''fc'' |\<in>| layer_names named_model
   \<and> fst (next_layer_name demo_env named_model ''fc'') = ''fc_auto_1''
   \<and> ''fc_auto_1'' |\<notin>| layer_names named_model
   \<and> ScopedName demo_env ''out'' |\<notin>| layer_names named_model
   \<and> fst (next_layer_name demo_env named_model ''out'') = ''out''
   \<and> issued_names demo_env [Next_layer_name ''fc'', Has_loss, Next_layer_name ''fc'']
        named_model = [''fc_auto_1'', ''fc_auto_2'']
   \<and> distinct (issued_names demo_env [Next_layer_name ''fc'', Has_loss, Next_layer_name ''fc'']
        named_model)"
proof -
  have used: "ScopedName demo_env ''fc'' |\<in>| layer_names named_model"
    by (simp add: demo_ScopedName named_model_names)
  have unused: "ScopedName demo_env ''out'' |\<notin>| layer_names named_model"
    by (simp add: demo_ScopedName named_model_names)
  note t1 = next_layer_name_unique[of demo_env named_model "''fc''"
          "[Next_layer_name ''fc'', Has_loss, Next_layer_name ''fc'']"]
  note t2 = next_layer_name_unique[of demo_env named_model "''out''" "[]"]
  have fresh: "fst (next_layer_name demo_env named_model ''fc'') |\<notin>| layer_names named_model"
    using t1 by blast
  have out: "fst (next_layer_name demo_env named_model ''out'') = ScopedName demo_env ''out''"
    using t2 unused by blast
  have dist: "distinct (issued_names demo_env
        [Next_layer_name ''fc'', Has_loss, Next_layer_name ''fc''] named_model)"
    using t1 by blast
  have issued: "issued_names demo_env [Next_layer_name ''fc'', Has_loss, Next_layer_name ''fc'']
        named_model = [''fc_auto_1'', ''fc_auto_2'']"
    by (simp add: demo_next_fc demo_next_fc2)
  from used unused fresh out dist issued show ?thesis
    by (simp add: demo_next_fc demo_ScopedName)
qed

section \<open>Write-once loss and output schema\<close>

text \<open>No method sets \<^verbatim>\<open>_loss\<close> back to \<^verbatim>\<open>None\<close>.\<close>

lemma add_layer_params_loss: "loss (snd (add_layer_params s ps)) = loss s"
  by (induction s ps rule: add_layer_params.induct)
     (auto simp: Let_def split: pyref.splits param_class.splits)

lemma add_global_constant_loss:
  "loss (snd (add_global_constant env s name array dtype ini)) = loss s"
  by (auto simp: add_global_constant_def Let_def split: prod.splits sum.splits)

lemma add_loss_keeps_loss: "loss s \<noteq> None \<Longrightarrow> loss (snd (add_loss env s l name)) \<noteq> None"
  by (auto simp: add_loss_def Let_def split: loss_arg.splits option.splits sum.splits)

lemma invoke_keeps_loss: "loss s \<noteq> None \<Longrightarrow> loss (invoke env c s) \<noteq> None"
proof (cases c)
  case (Add_metric_field name v)
  then show "loss s \<noteq> None \<Longrightarrow> ?thesis"
    by (auto simp: add_metric_field_def split: field.splits sum.splits)
next
  case (Add_global_constant name array dtype ini)
  then show "loss s \<noteq> None \<Longrightarrow> ?thesis" by (simp add: add_global_constant_loss)
next
  case (Maybe_add_global_constant name array dtype ini)
  then show "loss s \<noteq> None \<Longrightarrow> ?thesis"
    by (auto simp: maybe_add_global_constant_def add_global_constant_loss
             split: option.splits sum.splits)
next
  case (Create_param param_name shape ini opt ps reg)
  then show "loss s \<noteq> None \<Longrightarrow> ?thesis"
    by (auto simp: create_param_def split: sum.splits prod.splits)
next
  case (Next_layer_name prefix)
  then show "loss s \<noteq> None \<Longrightarrow> ?thesis" by (simp add: next_layer_name_def Let_def)
next
  case (Add_layer l)
  obtain r s1 where a: "add_layer_params (s\<lparr>layers := layers s @ [l]\<rparr>) (get_parameters l) = (r, s1)"
    by (cases "add_layer_params (s\<lparr>layers := layers s @ [l]\<rparr>) (get_parameters l)")
  have "loss s1 = loss s"
    using add_layer_params_loss[of "s\<lparr>layers := layers s @ [l]\<rparr>" "get_parameters l"] a
    by simp
  with Add_layer a show "loss s \<noteq> None \<Longrightarrow> ?thesis"
    by (auto simp: add_layer_def split: sum.splits prod.splits)
next
  case (Set_loss v)
  then show "loss s \<noteq> None \<Longrightarrow> ?thesis" by (simp add: loss_setter_def)
next
  case (Add_loss l name)
  then show "loss s \<noteq> None \<Longrightarrow> ?thesis" by (simp add: add_loss_keeps_loss)
next
  case (Add_trainer_extra_schema extra)
  then show "loss s \<noteq> None \<Longrightarrow> ?thesis"
    by (auto simp: add_trainer_extra_schema_def split: sum.splits prod.splits)
next
  case (Apply_regularizers_on_loss nets)
  assume set: "loss s \<noteq> None"
  have "loss (fst (snd (regularizers_on_loss env (param_to_reg s) s nets))) \<noteq> None"
    by (rule regularizers_on_loss_preserves[where P = "\<lambda>t. loss t \<noteq> None"])
       (simp_all add: add_loss_keeps_loss set)
  with Apply_regularizers_on_loss show ?thesis
    by (simp add: apply_regularizers_on_loss_def)
next
  case (Set_breakdown_map arg)
  then show "loss s \<noteq> None \<Longrightarrow> ?thesis"
    using breakdown_map_setter_frame[of env s arg] by auto
qed (simp_all add: clear_output_schema_def set_initialize_params_def store_seed_def
       default_optimizer_setter_def output_schema_setter_def)

lemma run_keeps_loss: "loss s \<noteq> None \<Longrightarrow> loss (run env calls s) \<noteq> None"
proof (induction calls arbitrary: s)
  case Nil
  then show ?case by (simp add: run_def)
next
  case (Cons c cs)
  have "run env (c # cs) s = run env cs (invoke env c s)" by (simp add: run_def)
  with Cons.IH[OF invoke_keeps_loss[OF Cons.prems, of env c]] show ?case by simp
qed

text \<open>
  Claim C10. The setters of \<^verbatim>\<open>loss\<close> and \<^verbatim>\<open>output_schema\<close> raise \<^verbatim>\<open>AssertionError\<close>, and
  leave the object as it is, when the attribute is already set (is not \<^verbatim>\<open>None\<close>); the
  getters raise \<^verbatim>\<open>AssertionError\<close> while it is unset and return it once it is set.
  \<^verbatim>\<open>clear_output_schema\<close> makes \<^verbatim>\<open>output_schema\<close> unset, after which its setter succeeds
  again. \<^verbatim>\<open>loss\<close> has no such reset: once it is set it stays set through every sequence
  of method calls, so after the setter has assigned a value every later call of the
  setter raises.
\<close>

theorem loss_output_schema_write_once:
  "(output_schema s \<noteq> None \<longrightarrow> output_schema_setter s v = (Inl AssertionError, s))
   \<and> (loss s \<noteq> None \<longrightarrow> loss_setter s v = (Inl AssertionError, s))
   \<and> (output_schema s = None \<longrightarrow>
         output_schema_getter s = Inl AssertionError
         \<and> output_schema_setter s v = (Inr (), s\<lparr>output_schema := v\<rparr>))
   \<and> (loss s = None \<longrightarrow>
         loss_getter s = Inl AssertionError
         \<and> loss_setter s v = (Inr (), s\<lparr>loss := v\<rparr>))
   \<and> (output_schema s = Some x \<longrightarrow> output_schema_getter s = Inr x)
   \<and> (loss s = Some x \<longrightarrow> loss_getter s = Inr x)
   \<and> output_schema (clear_output_schema s) = None
   \<and> output_schema_setter (clear_output_schema s) v
       = (Inr (), (clear_output_schema s)\<lparr>output_schema := v\<rparr>)
   \<and> (loss s \<noteq> None \<longrightarrow>
         loss (run env calls s) \<noteq> None
         \<and> loss_setter (run env calls s) w = (Inl AssertionError, run env calls s))
   \<and> (loss s = None \<longrightarrow>
         loss_setter (run env calls (snd (loss_setter s (Some x)))) w
           = (Inl AssertionError, run env calls (snd (loss_setter s (Some x)))))"
proof -
  have keep: "loss s \<noteq> None \<longrightarrow>
         loss (run env calls s) \<noteq> None
         \<and> loss_setter (run env calls s) w = (Inl AssertionError, run env calls s)"
    using run_keeps_loss[of s env calls] by (simp add: loss_setter_def)
  have once: "loss s = None \<longrightarrow>
         loss_setter (run env calls (snd (loss_setter s (Some x)))) w
           = (Inl AssertionError, run env calls (snd (loss_setter s (Some x))))"
  proof
    assume "loss s = None"
    then have "loss (snd (loss_setter s (Some x))) \<noteq> None"
      by (simp add: loss_setter_def)
    from run_keeps_loss[OF this, of env calls] show
      "loss_setter (run env calls (snd (loss_setter s (Some x)))) w
           = (Inl AssertionError, run env calls (snd (loss_setter s (Some x))))"
      by (simp add: loss_setter_def)
  qed
  show ?thesis
    apply (intro conjI)
             apply (simp add: output_schema_setter_def)
            apply (simp add: loss_setter_def)
           apply (simp add: output_schema_setter_def output_schema_getter_def)
          apply (simp add: loss_setter_def loss_getter_def)
         apply (simp add: output_schema_getter_def)
        apply (simp add: loss_getter_def)
       apply (simp add: clear_output_schema_def)
      apply (simp add: clear_output_schema_def output_schema_setter_def)
     apply (rule keep)
    apply (rule once)
    done
qed

theorem loss_output_schema_write_once_witness:
  "loss demo_model = None
   \<and> output_schema demo_model = None
   \<and> loss_getter demo_model = Inl AssertionError
   \<and> output_schema_getter demo_model = Inl AssertionError
   \<and> loss_setter demo_model (Some loss_a) = (Inr (), demo_model\<lparr>loss := Some loss_a\<rparr>)
   \<and> loss (demo_model\<lparr>loss := Some loss_a\<rparr>) \<noteq> None
   \<and> loss_setter (demo_model\<lparr>loss := Some loss_a\<rparr>) (Some loss_b)
       = (Inl AssertionError, demo_model\<lparr>loss := Some loss_a\<rparr>)
   \<and> loss_getter (demo_model\<lparr>loss := Some loss_a\<rparr>) = Inr loss_a
   \<and> output_schema (demo_model\<lparr>output_schema := Some loss_a\<rparr>) \<noteq> None
   \<and> output_schema_setter (demo_model\<lparr>output_schema := Some loss_a\<rparr>) (Some loss_b)
       = (Inl AssertionError, demo_model\<lparr>output_schema := Some loss_a\<rparr>)
   \<and> output_schema_setter (clear_output_schema (demo_model\<lparr>output_schema := Some loss_a\<rparr>))
         (Some loss_b)
       = (Inr (), demo_model\<lparr>output_schema := Some loss_b\<rparr>)
   \<and> fst (loss_setter
         (run demo_env [Clear_output_schema, Add_loss (LossField loss_b) ''b'']
            (snd (loss_setter demo_model (Some loss_a)))) (Some loss_b))
       = Inl AssertionError"
proof -
  let ?set = "demo_model\<lparr>loss := Some loss_a\<rparr>"
  let ?out = "demo_model\<lparr>output_schema := Some loss_a\<rparr>"
  let ?calls = "[Clear_output_schema, Add_loss (LossField loss_b) ''b'']"
  have l0: "loss demo_model = None" and o0: "output_schema demo_model = None"
    by (simp_all add: demo_model_def)
  have l1: "loss ?set \<noteq> None" and l1': "loss ?set = Some loss_a" by simp_all
  have o1: "output_schema ?out \<noteq> None" by simp
  note t0 = loss_output_schema_write_once[of demo_model "Some loss_a" loss_a demo_env ?calls
              "Some loss_b"]
  note t1 = loss_output_schema_write_once[of ?set "Some loss_b" loss_a demo_env ?calls
              "Some loss_b"]
  note t2 = loss_output_schema_write_once[of ?out "Some loss_b" loss_a demo_env ?calls
              "Some loss_b"]
  have a: "loss_getter demo_model = Inl AssertionError"
    "loss_setter demo_model (Some loss_a) = (Inr (), ?set)"
    using t0 l0 by blast+
  have b: "output_schema_getter demo_model = Inl AssertionError"
    using t0 o0 by blast
  have c: "loss_setter ?set (Some loss_b) = (Inl AssertionError, ?set)"
    using t1 l1 by blast
  have d: "loss_getter ?set = Inr loss_a"
    using t1 l1' by blast
  have e: "output_schema_setter ?out (Some loss_b) = (Inl AssertionError, ?out)"
    using t2 o1 by blast
  have f: "output_schema_setter (clear_output_schema ?out) (Some loss_b)
       = (Inr (), (clear_output_schema ?out)\<lparr>output_schema := Some loss_b\<rparr>)"
    using t2 by blast
  have g: "loss_setter (run demo_env ?calls (snd (loss_setter demo_model (Some loss_a))))
             (Some loss_b)
       = (Inl AssertionError, run demo_env ?calls (snd (loss_setter demo_model (Some loss_a))))"
    using t0 l0 by blast
  have f': "(clear_output_schema ?out)\<lparr>output_schema := Some loss_b\<rparr>
        = demo_model\<lparr>output_schema := Some loss_b\<rparr>"
    by (simp add: clear_output_schema_def)
  from l0 o0 a b c d e f g l1 o1 show ?thesis
    by (simp add: f')
qed

section \<open>The metrics schema\<close>

text \<open>Only \<^verbatim>\<open>add_metric_field\<close> assigns \<^verbatim>\<open>_metrics_schema\<close>.\<close>

lemma add_layer_params_metrics_schema:
  "metrics_schema (snd (add_layer_params s ps)) = metrics_schema s"
  by (induction s ps rule: add_layer_params.induct)
     (auto simp: Let_def split: pyref.splits param_class.splits)

lemma add_global_constant_metrics_schema:
  "metrics_schema (snd (add_global_constant env s name array dtype ini)) = metrics_schema s"
  by (auto simp: add_global_constant_def Let_def split: prod.splits sum.splits)

lemma add_loss_metrics_schema:
  "metrics_schema (snd (add_loss env s l name)) = metrics_schema s"
  by (auto simp: add_loss_def Let_def split: loss_arg.splits option.splits sum.splits)

lemma invoke_metrics_schema:
  assumes "\<forall>n x. c \<noteq> Add_metric_field n x"
  shows "metrics_schema (invoke env c s) = metrics_schema s"
proof (cases c)
  case (Add_metric_field name v)
  with assms show ?thesis by simp
next
  case (Add_global_constant name array dtype ini)
  then show ?thesis by (simp add: add_global_constant_metrics_schema)
next
  case (Maybe_add_global_constant name array dtype ini)
  then show ?thesis
    by (auto simp: maybe_add_global_constant_def add_global_constant_metrics_schema
             split: option.splits sum.splits)
next
  case (Create_param param_name shape ini opt ps reg)
  then show ?thesis
    by (auto simp: create_param_def split: sum.splits prod.splits)
next
  case (Next_layer_name prefix)
  then show ?thesis by (simp add: next_layer_name_def Let_def)
next
  case (Add_layer l)
  obtain r s1 where a: "add_layer_params (s\<lparr>layers := layers s @ [l]\<rparr>) (get_parameters l) = (r, s1)"
    by (cases "add_layer_params (s\<lparr>layers := layers s @ [l]\<rparr>) (get_parameters l)")
  have "metrics_schema s1 = metrics_schema s"
    using add_layer_params_metrics_schema[of "s\<lparr>layers := layers s @ [l]\<rparr>" "get_parameters l"] a
    by simp
  with Add_layer a show ?thesis
    by (auto simp: add_layer_def split: sum.splits prod.splits)
next
  case (Add_loss l name)
  then show ?thesis by (simp add: add_loss_metrics_schema)
next
  case (Add_trainer_extra_schema extra)
  then show ?thesis
    by (auto simp: add_trainer_extra_schema_def split: sum.splits prod.splits)
next
  case (Apply_regularizers_on_loss nets)
  have "metrics_schema (fst (snd (regularizers_on_loss env (param_to_reg s) s nets)))
          = metrics_schema s"
    by (rule regularizers_on_loss_preserves[where P = "\<lambda>t. metrics_schema t = metrics_schema s"])
       (simp_all add: add_loss_metrics_schema)
  with Apply_regularizers_on_loss show ?thesis
    by (simp add: apply_regularizers_on_loss_def)
next
  case (Set_breakdown_map arg)
  then show ?thesis
    using breakdown_map_setter_frame[of env s arg] by auto
qed (simp_all add: clear_output_schema_def set_initialize_params_def store_seed_def
       default_optimizer_setter_def output_schema_setter_def loss_setter_def)

lemma add_metric_field_failure:
  "fst (add_metric_field env s name v) = Inr () \<or> snd (add_metric_field env s name v) = s"
  by (simp add: add_metric_field_def split: field.splits sum.splits)

text \<open>
  Claim C7. \<^verbatim>\<open>add_metric_field(name, value)\<close> raises \<^verbatim>\<open>AssertionError\<close> and leaves the object
  unchanged when \<open>name\<close> is a key of the \<^verbatim>\<open>fields\<close> of the metrics schema. Otherwise, when
  the struct \<^verbatim>\<open>schema.Struct((name, value))\<close> is built and added, the metrics schema becomes
  the previous schema \<^verbatim>\<open>+\<close> that single-field struct; whenever the call raises, the object
  is unchanged. No other method call changes the metrics schema.
\<close>

theorem add_metric_field_no_duplicates:
  "(metrics_schema s = Struct fs \<and> dict_contains name fs
      \<longrightarrow> add_metric_field env s name v = (Inl AssertionError, s))
   \<and> (metrics_schema s = Struct fs \<and> \<not> dict_contains name fs
        \<and> new_Struct env [(name, v)] = Inr single
        \<and> Struct_add env (metrics_schema s) single = Inr merged
      \<longrightarrow> add_metric_field env s name v = (Inr (), s\<lparr>metrics_schema := merged\<rparr>))
   \<and> (fst (add_metric_field env s name v) \<noteq> Inr ()
      \<longrightarrow> snd (add_metric_field env s name v) = s)
   \<and> ((\<forall>n x. c \<noteq> Add_metric_field n x)
      \<longrightarrow> metrics_schema (invoke env c s) = metrics_schema s)"
proof (intro conjI impI)
  assume "metrics_schema s = Struct fs \<and> dict_contains name fs"
  then show "add_metric_field env s name v = (Inl AssertionError, s)"
    by (simp add: add_metric_field_def)
next
  assume a: "metrics_schema s = Struct fs \<and> \<not> dict_contains name fs
        \<and> new_Struct env [(name, v)] = Inr single
        \<and> Struct_add env (metrics_schema s) single = Inr merged"
  note m = a[THEN conjunct1]
  note n = a[THEN conjunct2, THEN conjunct1]
  note st = a[THEN conjunct2, THEN conjunct2, THEN conjunct1]
  note ad0 = a[THEN conjunct2, THEN conjunct2, THEN conjunct2]
  have ad: "Struct_add env (Struct fs) single = Inr merged"
    using ad0 by (simp add: m)
  show "add_metric_field env s name v = (Inr (), s\<lparr>metrics_schema := merged\<rparr>)"
    by (simp add: add_metric_field_def m n st ad)
next
  assume "fst (add_metric_field env s name v) \<noteq> Inr ()"
  with add_metric_field_failure[of env s name v]
  show "snd (add_metric_field env s name v) = s"
    by simp
next
  assume "\<forall>n x. c \<noteq> Add_metric_field n x"
  then show "metrics_schema (invoke env c s) = metrics_schema s"
    by (rule invoke_metrics_schema)
qed

lemma demo_new_Struct: "new_Struct demo_env fs = Inr (Struct fs)"
  by (simp add: demo_env_def)

lemma demo_Struct_add_Struct: "Struct_add demo_env (Struct xs) (Struct ys) = Inr (Struct (xs @ ys))"
  by (simp add: demo_env_def demo_Struct_add_def)

theorem add_metric_field_no_duplicates_witness:
  "dict_contains ''auc'' [(''auc'', Scalar (Some ''auc_blob''))]
   \<and> add_metric_field demo_env metrics_model ''auc'' (Scalar (Some ''other''))
       = (Inl AssertionError, metrics_model)
   \<and> \<not> dict_contains ''ne'' [(''auc'', Scalar (Some ''auc_blob''))]
   \<and> add_metric_field demo_env metrics_model ''ne'' (Scalar (Some ''ne_blob''))
       = (Inr (), metrics_model\<lparr>metrics_schema :=
            Struct [(''auc'', Scalar (Some ''auc_blob'')), (''ne'', Scalar (Some ''ne_blob''))]\<rparr>)
   \<and> metrics_schema (invoke demo_env (Add_loss (LossField (Scalar (Some ''l''))) ''l'')
        metrics_model) = Struct [(''auc'', Scalar (Some ''auc_blob''))]"
proof -
  let ?fs = "[(''auc'', Scalar (Some ''auc_blob''))]"
  have m: "metrics_schema metrics_model = Struct ?fs"
    by (simp add: metrics_model_def)
  have dup: "dict_contains ''auc'' ?fs" and new: "\<not> dict_contains ''ne'' ?fs"
    by (simp_all add: dict_contains_def)
  have single: "new_Struct demo_env [(''ne'', Scalar (Some ''ne_blob''))]
      = Inr (Struct [(''ne'', Scalar (Some ''ne_blob''))])"
    by (rule demo_new_Struct)
  have merged: "Struct_add demo_env (metrics_schema metrics_model)
        (Struct [(''ne'', Scalar (Some ''ne_blob''))])
      = Inr (Struct (?fs @ [(''ne'', Scalar (Some ''ne_blob''))]))"
    by (simp add: m demo_Struct_add_Struct)
  have other: "\<forall>n x. Add_loss (LossField (Scalar (Some ''l''))) ''l'' \<noteq> Add_metric_field n x"
    by simp
  note t1 = add_metric_field_no_duplicates[of metrics_model ?fs "''auc''" demo_env
      "Scalar (Some ''other'')" "Struct []" "Struct []" "Add_loss (LossField (Scalar (Some ''l''))) ''l''"]
  note t2 = add_metric_field_no_duplicates[of metrics_model ?fs "''ne''" demo_env
      "Scalar (Some ''ne_blob'')" "Struct [(''ne'', Scalar (Some ''ne_blob''))]"
      "Struct (?fs @ [(''ne'', Scalar (Some ''ne_blob''))])"
      "Add_loss (LossField (Scalar (Some ''l''))) ''l''"]
  have a: "add_metric_field demo_env metrics_model ''auc'' (Scalar (Some ''other''))
       = (Inl AssertionError, metrics_model)"
    by (rule t1[THEN conjunct1, rule_format]) (simp add: m dup)
  have b: "add_metric_field demo_env metrics_model ''ne'' (Scalar (Some ''ne_blob''))
       = (Inr (), metrics_model\<lparr>metrics_schema :=
            Struct (?fs @ [(''ne'', Scalar (Some ''ne_blob''))])\<rparr>)"
    by (rule t2[THEN conjunct2, THEN conjunct1, rule_format]) (simp add: m new demo_new_Struct demo_Struct_add_Struct)
  have c: "metrics_schema (invoke demo_env (Add_loss (LossField (Scalar (Some ''l''))) ''l'')
        metrics_model) = metrics_schema metrics_model"
    by (rule t2[THEN conjunct2, THEN conjunct2, THEN conjunct2, rule_format]) simp
  have b': "add_metric_field demo_env metrics_model ''ne'' (Scalar (Some ''ne_blob''))
       = (Inr (), metrics_model\<lparr>metrics_schema :=
            Struct [(''auc'', Scalar (Some ''auc_blob'')), (''ne'', Scalar (Some ''ne_blob''))]\<rparr>)"
    using b by simp
  have c': "metrics_schema (invoke demo_env (Add_loss (LossField (Scalar (Some ''l''))) ''l'')
        metrics_model) = Struct [(''auc'', Scalar (Some ''auc_blob''))]"
    using c by (simp only: m)
  show ?thesis
    apply (intro conjI)
        apply (rule dup)
       apply (rule a)
      apply (rule new)
     apply (rule b')
    apply (rule c')
    done
qed

section \<open>The breakdown map\<close>

text \<open>In Python 3 the only exception a comparison, and so the sort, raises is \<^verbatim>\<open>TypeError\<close>.\<close>

lemma py3_lt_error: "py3_lt a b = Inl e \<Longrightarrow> e = TypeError"
  by (auto simp: py3_lt_def split: option.splits map_value.splits)

lemma py_lt_error: "py_lt v a b = Inl e \<Longrightarrow> e = TypeError"
  by (cases v) (auto simp: py_lt_def dest: py3_lt_error)

lemma insert_value_error: "insert_value v x ys = Inl e \<Longrightarrow> e = TypeError"
proof (induction ys arbitrary: e)
  case Nil
  then show ?case by simp
next
  case (Cons y ys)
  show ?case
  proof (cases "py_lt v x y")
    case (Inl e')
    with Cons.prems show ?thesis by (auto dest: py_lt_error)
  next
    case (Inr b)
    show ?thesis
    proof (cases b)
      case True
      with Cons.prems Inr show ?thesis by simp
    next
      case False
      with Cons.prems Inr have "insert_value v x ys = Inl e"
        by (cases "insert_value v x ys") simp_all
      then show ?thesis by (rule Cons.IH)
    qed
  qed
qed

lemma insert_values_error: "insert_values v acc xs = Inl e \<Longrightarrow> e = TypeError"
proof (induction xs arbitrary: acc)
  case Nil
  then show ?case by simp
next
  case (Cons x xs)
  show ?case
  proof (cases "insert_value v x acc")
    case (Inl e')
    with Cons.prems have "e' = e" by simp
    with Inl show ?thesis by (auto dest: insert_value_error)
  next
    case (Inr acc')
    with Cons.prems have "insert_values v acc' xs = Inl e" by simp
    then show ?thesis by (rule Cons.IH)
  qed
qed

lemma py_sorted_error: "py_sorted v xs = Inl e \<Longrightarrow> e = TypeError"
  unfolding py_sorted_def by (rule insert_values_error)

lemma breakdown_map_setter_python3:
  assumes "python env = Python3"
  shows "(fst (breakdown_map_setter env s arg) = Inl AssertionError
          \<or> fst (breakdown_map_setter env s arg) = Inl TypeError)
         \<and> snd (breakdown_map_setter env s arg) = s"
proof (cases arg)
  case NotDict
  then show ?thesis by (simp add: breakdown_map_setter_def)
next
  case (Dict d)
  show ?thesis
  proof (cases "py_sorted Python3 (map snd d)")
    case (Inl e)
    then have "e = TypeError" by (rule py_sorted_error)
    with Inl Dict assms show ?thesis by (simp add: breakdown_map_setter_def)
  next
    case (Inr vs)
    with Dict assms show ?thesis
      by (simp add: breakdown_map_setter_def list_eq_range_def)
  qed
qed

lemma breakdown_map_setter_accepted:
  assumes "breakdown_map_setter env s arg = (Inr (), s')"
  shows "python env = Python2
         \<and> (\<exists>d vs. arg = Dict d \<and> list_all is_string_key (map fst d)
               \<and> py_sorted Python2 (map snd d) = Inr vs
               \<and> list_all2 py_eq vs (map (\<lambda>i. IntValue (int i)) [0..<length d])
               \<and> s' = s\<lparr>breakdown_map := Some d\<rparr>)"
proof -
  have p: "python env = Python2"
  proof (cases "python env")
    case Python2
    then show ?thesis .
  next
    case Python3
    from breakdown_map_setter_python3[OF this, of s arg] assms show ?thesis by simp
  qed
  from assms obtain d where d: "arg = Dict d"
    by (cases arg) (simp_all add: breakdown_map_setter_def)
  from assms d have k: "list_all is_string_key (map fst d)"
    by (simp add: breakdown_map_setter_def split: if_splits)
  from assms d k p obtain vs where vs: "py_sorted Python2 (map snd d) = Inr vs"
    by (cases "py_sorted Python2 (map snd d)") (simp_all add: breakdown_map_setter_def)
  from assms d k p vs have "list_eq_range Python2 vs (length d)"
    and s': "s' = s\<lparr>breakdown_map := Some d\<rparr>"
    by (simp_all add: breakdown_map_setter_def split: if_splits)
  then have "list_all2 py_eq vs (map (\<lambda>i. IntValue (int i)) [0..<length d])"
    by (simp add: list_eq_range_def)
  with p d k vs s' show ?thesis by blast
qed

lemma breakdown_map_setter_failure:
  "fst (breakdown_map_setter env s arg) = Inr () \<or> snd (breakdown_map_setter env s arg) = s"
  by (simp add: breakdown_map_setter_def split: breakdown_arg.splits sum.splits)

text \<open>
  Under Python 2 integers sort as integers do: the sort of a list of integer values is the
  list of values of the sorted integers, \<open>int_inserts\<close> being the insertions on integers.
\<close>

fun int_insert :: "int \<Rightarrow> int list \<Rightarrow> int list" where
  "int_insert x [] = [x]"
| "int_insert x (y # ys) = (if x < y then x # y # ys else y # int_insert x ys)"

fun int_inserts :: "int list \<Rightarrow> int list \<Rightarrow> int list" where
  "int_inserts acc [] = acc"
| "int_inserts acc (x # xs) = int_inserts (int_insert x acc) xs"

lemma py_lt_int: "py_lt Python2 (IntValue x) (IntValue y) = Inr (x < y)"
  by (simp add: py_lt_def py2_lt_def number_of_def)

lemma insert_value_int:
  "insert_value Python2 (IntValue x) (map IntValue ys) = Inr (map IntValue (int_insert x ys))"
  by (induction ys) (simp_all add: py_lt_int)

lemma insert_values_int:
  "insert_values Python2 (map IntValue acc) (map IntValue xs)
     = Inr (map IntValue (int_inserts acc xs))"
  by (induction xs arbitrary: acc) (simp_all add: insert_value_int)

lemma py_sorted_int: "py_sorted Python2 (map IntValue xs) = Inr (map IntValue (int_inserts [] xs))"
  using insert_values_int[of "[]" xs] by (simp add: py_sorted_def)

lemma set_int_insert: "set (int_insert x ys) = insert x (set ys)"
  by (induction ys) auto

lemma length_int_insert: "length (int_insert x ys) = Suc (length ys)"
  by (induction ys) auto

lemma sorted_int_insert: "sorted ys \<Longrightarrow> sorted (int_insert x ys)"
  by (induction ys) (auto simp: set_int_insert)

lemma set_int_inserts: "set (int_inserts acc xs) = set acc \<union> set xs"
  by (induction xs arbitrary: acc) (auto simp: set_int_insert)

lemma length_int_inserts: "length (int_inserts acc xs) = length acc + length xs"
  by (induction xs arbitrary: acc) (auto simp: length_int_insert)

lemma sorted_int_inserts: "sorted acc \<Longrightarrow> sorted (int_inserts acc xs)"
  by (induction xs arbitrary: acc) (auto simp: sorted_int_insert)

lemma int_inserts_range:
  assumes "set xs = {0..<int (length xs)}"
  shows "int_inserts [] xs = map int [0..<length xs]"
proof -
  let ?r = "int_inserts [] xs"
  have s: "set ?r = {0..<int (length xs)}" by (simp add: set_int_inserts assms)
  have l: "length ?r = length xs" by (simp add: length_int_inserts)
  have "card (set ?r) = length ?r" by (simp add: s l)
  then have d: "distinct ?r" by (rule card_distinct)
  have so: "sorted ?r" by (rule sorted_int_inserts) simp
  have r: "set (map int [0..<length xs]) = {0..<int (length xs)}"
    by (simp add: image_int_atLeastLessThan)
  have sr: "sorted (map int [0..<length xs])" by (simp add: sorted_map)
  have dr: "distinct (map int [0..<length xs])" by (simp add: distinct_map)
  show ?thesis
    by (rule sorted_distinct_set_unique) (use d so s r sr dr in simp_all)
qed

lemma py_eq_int: "py_eq (IntValue x) (IntValue y) = (x = y)"
  by (simp add: py_eq_def number_of_def)

lemma breakdown_map_setter_python2:
  assumes p: "python env = Python2"
    and k: "list_all is_string_key (map fst d)"
    and v: "map snd d = map IntValue xs"
    and r: "set xs = {0..<int (length xs)}"
  shows "breakdown_map_setter env s (Dict d) = (Inr (), s\<lparr>breakdown_map := Some d\<rparr>)"
proof -
  have n: "length d = length xs"
    using v by (metis length_map)
  define vs where "vs = map IntValue (map int [0..<length xs])"
  have so: "py_sorted Python2 (map snd d) = Inr vs"
    by (simp add: v py_sorted_int int_inserts_range[OF r] vs_def)
  have "list_all2 py_eq (map IntValue (map int [0..<length xs]))
          (map (\<lambda>i. IntValue (int i)) [0..<length xs])"
    unfolding list_all2_map1 list_all2_map2 list_all2_same py_eq_int by simp
  then have eq: "list_eq_range Python2 vs (length d)"
    unfolding list_eq_range_def n vs_def by simp
  show ?thesis
    by (simp add: breakdown_map_setter_def p k so eq)
qed

text \<open>
  Claim C8. What the setter of \<^verbatim>\<open>breakdown_map\<close> does depends on the interpreter. Under
  Python 3 it accepts nothing: on every argument it raises \<^verbatim>\<open>AssertionError\<close>, or
  \<^verbatim>\<open>TypeError\<close> when \<^verbatim>\<open>sorted\<close> meets values it cannot order, and the stored map is
  unchanged; a list is never equal to \<^verbatim>\<open>range(n)\<close> there. Whenever the setter accepts, the
  interpreter is Python 2, the argument is a dict with string keys, and its sorted values
  are equal, one by one, to \<open>0, ..., n-1\<close>. Under Python 2 a dict with string keys whose
  values are the integers \<open>0 .. n-1\<close> is accepted and stored. A call that raises leaves the
  object unchanged.
\<close>

theorem breakdown_map_setter_by_interpreter:
  "(python env = Python3 \<longrightarrow>
      (fst (breakdown_map_setter env s arg) = Inl AssertionError
       \<or> fst (breakdown_map_setter env s arg) = Inl TypeError)
      \<and> snd (breakdown_map_setter env s arg) = s)
   \<and> (breakdown_map_setter env s arg = (Inr (), s') \<longrightarrow>
        python env = Python2
        \<and> (\<exists>d vs. arg = Dict d \<and> list_all is_string_key (map fst d)
               \<and> py_sorted Python2 (map snd d) = Inr vs
               \<and> list_all2 py_eq vs (map (\<lambda>i. IntValue (int i)) [0..<length d])
               \<and> s' = s\<lparr>breakdown_map := Some d\<rparr>))
   \<and> (python env = Python2 \<and> list_all is_string_key (map fst d)
        \<and> map snd d = map IntValue xs \<and> set xs = {0..<int (length xs)}
      \<longrightarrow> breakdown_map_setter env s (Dict d) = (Inr (), s\<lparr>breakdown_map := Some d\<rparr>))
   \<and> (fst (breakdown_map_setter env s arg) = Inr ()
        \<or> snd (breakdown_map_setter env s arg) = s)"
proof (intro conjI impI)
  assume "python env = Python3"
  from breakdown_map_setter_python3[OF this, of s arg]
  show "fst (breakdown_map_setter env s arg) = Inl AssertionError
       \<or> fst (breakdown_map_setter env s arg) = Inl TypeError"
    by (rule conjunct1)
next
  assume "python env = Python3"
  from breakdown_map_setter_python3[OF this, of s arg]
  show "snd (breakdown_map_setter env s arg) = s"
    by (rule conjunct2)
next
  assume "breakdown_map_setter env s arg = (Inr (), s')"
  from breakdown_map_setter_accepted[OF this] show "python env = Python2"
    by (rule conjunct1)
next
  assume "breakdown_map_setter env s arg = (Inr (), s')"
  from breakdown_map_setter_accepted[OF this]
  show "\<exists>d vs. arg = Dict d \<and> list_all is_string_key (map fst d)
               \<and> py_sorted Python2 (map snd d) = Inr vs
               \<and> list_all2 py_eq vs (map (\<lambda>i. IntValue (int i)) [0..<length d])
               \<and> s' = s\<lparr>breakdown_map := Some d\<rparr>"
    by (rule conjunct2)
next
  assume a: "python env = Python2 \<and> list_all is_string_key (map fst d)
        \<and> map snd d = map IntValue xs \<and> set xs = {0..<int (length xs)}"
  show "breakdown_map_setter env s (Dict d) = (Inr (), s\<lparr>breakdown_map := Some d\<rparr>)"
    by (rule breakdown_map_setter_python2[OF a[THEN conjunct1] a[THEN conjunct2, THEN conjunct1]
          a[THEN conjunct2, THEN conjunct2, THEN conjunct1]
          a[THEN conjunct2, THEN conjunct2, THEN conjunct2]])
next
  show "fst (breakdown_map_setter env s arg) = Inr ()
        \<or> snd (breakdown_map_setter env s arg) = s"
    by (rule breakdown_map_setter_failure)
qed

lemma python3_mixed:
  "breakdown_map_setter python3_env demo_model (Dict mixed_dict) = (Inl TypeError, demo_model)"
  by (simp add: breakdown_map_setter_def python3_env_def mixed_dict_def is_string_key_def
        py_sorted_def py_lt_def py3_lt_def number_of_def)

lemma python2_mixed:
  "breakdown_map_setter demo_env demo_model (Dict mixed_dict) = (Inl AssertionError, demo_model)"
  by (simp add: breakdown_map_setter_def demo_env_def mixed_dict_def is_string_key_def
        py_sorted_def py_lt_def py2_lt_def py2_rank_def number_of_def list_eq_range_def
        py_eq_def)

theorem breakdown_map_setter_by_interpreter_witness:
  "python python3_env = Python3
   \<and> breakdown_map_setter python3_env demo_model (Dict [(StrKey ''country'', IntValue 0)])
       = (Inl AssertionError, demo_model)
   \<and> breakdown_map_setter python3_env demo_model (Dict breakdown_dict)
       = (Inl AssertionError, demo_model)
   \<and> breakdown_map_setter python3_env demo_model (Dict []) = (Inl AssertionError, demo_model)
   \<and> breakdown_map_setter python3_env demo_model (Dict mixed_dict) = (Inl TypeError, demo_model)
   \<and> python demo_env = Python2
   \<and> list_all is_string_key (map fst breakdown_dict)
   \<and> map snd breakdown_dict = map IntValue [1, 0]
   \<and> breakdown_map_setter demo_env demo_model (Dict breakdown_dict)
       = (Inr (), demo_model\<lparr>breakdown_map := Some breakdown_dict\<rparr>)
   \<and> breakdown_map_setter demo_env demo_model (Dict mixed_dict)
       = (Inl AssertionError, demo_model)"
proof -
  have p3: "python python3_env = Python3" by (simp add: python3_env_def)
  have p2: "python demo_env = Python2" by (simp add: demo_env_def)
  have k: "list_all is_string_key (map fst breakdown_dict)"
    by (simp add: breakdown_dict_def is_string_key_def)
  have v: "map snd breakdown_dict = map IntValue [1, 0]"
    by (simp add: breakdown_dict_def)
  have r: "set [1, 0 :: int] = {0..<int (length [1, 0 :: int])}"
    by auto
  have one: "breakdown_map_setter python3_env demo_model (Dict [(StrKey ''country'', IntValue 0)])
       = (Inl AssertionError, demo_model)"
    by (simp add: breakdown_map_setter_def p3 is_string_key_def py_sorted_def list_eq_range_def)
  have two: "breakdown_map_setter python3_env demo_model (Dict breakdown_dict)
       = (Inl AssertionError, demo_model)"
    by (simp add: breakdown_map_setter_def p3 is_string_key_def py_sorted_def list_eq_range_def
          breakdown_dict_def py_lt_def py3_lt_def number_of_def)
  have none: "breakdown_map_setter python3_env demo_model (Dict []) = (Inl AssertionError, demo_model)"
    by (simp add: breakdown_map_setter_def p3 py_sorted_def list_eq_range_def)
  note t = breakdown_map_setter_by_interpreter[of demo_env demo_model "Dict breakdown_dict"
      "demo_model\<lparr>breakdown_map := Some breakdown_dict\<rparr>" breakdown_dict "[1, 0]"]
  have acc: "breakdown_map_setter demo_env demo_model (Dict breakdown_dict)
       = (Inr (), demo_model\<lparr>breakdown_map := Some breakdown_dict\<rparr>)"
    by (rule t[THEN conjunct2, THEN conjunct2, THEN conjunct1, rule_format])
       (intro conjI p2 k v r)
  note u = breakdown_map_setter_by_interpreter[of python3_env demo_model "Dict breakdown_dict"
      demo_model breakdown_dict "[1, 0]"]
  have unchanged: "snd (breakdown_map_setter python3_env demo_model (Dict breakdown_dict))
       = demo_model"
    using u[THEN conjunct1, rule_format, OF p3] by (rule conjunct2)
  show ?thesis
    apply (intro conjI)
             apply (rule p3)
            apply (rule one)
           apply (rule two)
          apply (rule none)
         apply (rule python3_mixed)
        apply (rule p2)
       apply (rule k)
      apply (rule v)
     apply (rule acc)
    apply (rule python2_mixed)
    done
qed

section \<open>Global constants\<close>

text \<open>
  \<^verbatim>\<open>add_global_constant\<close> assigns \<^verbatim>\<open>global_constants[name]\<close> only when the name is new, and
  \<^verbatim>\<open>global_constant_initializers[blob_name]\<close> only when the blob has no initializer: both
  dicts only grow.
\<close>

lemma dict_contains_dom: "dict_contains k d \<longleftrightarrow> k \<in> dom (map_of d)"
  by (auto simp: dict_contains_def)

lemma update_fresh_map_le:
  "\<not> dict_contains k d \<Longrightarrow> map_of d \<subseteq>\<^sub>m map_of (AList.update k v d)"
  by (auto simp: dict_contains_def update_conv' map_le_def)

lemma dict_ok_update: "dict_ok d \<Longrightarrow> dict_ok (AList.update k v d)"
  by (simp add: dict_ok_def distinct_update)

text \<open>What \<^verbatim>\<open>add_global_constant\<close> does, case by case.\<close>

lemma add_global_constant_registered:
  "dict_contains name (global_constants s) \<Longrightarrow>
   add_global_constant env s name array dtype ini = (Inl AssertionError, s)"
  by (simp add: add_global_constant_def)

lemma add_global_constant_cases:
  assumes "\<not> dict_contains name (global_constants s)"
    and "NextBlob env (net s) name = (b, n)"
  shows "add_global_constant env s name array dtype ini =
     (let s1 = s\<lparr>net := n, global_constants := AList.update name b (global_constants s)\<rparr>
      in case get_global_constant_initializer_op env b array dtype ini of
           Inl e \<Rightarrow> (Inl e, s1)
         | Inr initializer_op \<Rightarrow>
             if dict_contains b (global_constant_initializers s) then (Inl AssertionError, s1)
             else (Inr b, s1\<lparr>global_constant_initializers :=
                     AList.update b initializer_op (global_constant_initializers s)\<rparr>))"
  using assms by (simp add: add_global_constant_def Let_def split: sum.splits)

lemma add_global_constant_grows:
  "map_of (global_constants s)
     \<subseteq>\<^sub>m map_of (global_constants (snd (add_global_constant env s name array dtype ini)))
   \<and> map_of (global_constant_initializers s)
     \<subseteq>\<^sub>m map_of (global_constant_initializers
          (snd (add_global_constant env s name array dtype ini)))"
proof (cases "dict_contains name (global_constants s)")
  case True
  then show ?thesis by (simp add: add_global_constant_registered)
next
  case False
  obtain b n where nb: "NextBlob env (net s) name = (b, n)"
    by (cases "NextBlob env (net s) name")
  show ?thesis
    using update_fresh_map_le[OF False, of b]
          update_fresh_map_le[of b "global_constant_initializers s"]
    by (simp add: add_global_constant_cases[OF False nb] Let_def split: sum.splits)
qed

lemma add_global_constant_dict_ok:
  "(dict_ok (global_constants s)
      \<longrightarrow> dict_ok (global_constants (snd (add_global_constant env s name array dtype ini))))
   \<and> (dict_ok (global_constant_initializers s)
      \<longrightarrow> dict_ok (global_constant_initializers
            (snd (add_global_constant env s name array dtype ini))))"
proof (cases "dict_contains name (global_constants s)")
  case True
  then show ?thesis by (simp add: add_global_constant_registered)
next
  case False
  obtain b n where nb: "NextBlob env (net s) name = (b, n)"
    by (cases "NextBlob env (net s) name")
  show ?thesis
    by (simp add: add_global_constant_cases[OF False nb] Let_def dict_ok_update split: sum.splits)
qed

lemma maybe_add_global_constant_registered:
  "map_of (global_constants s) name = Some b \<Longrightarrow>
   snd (maybe_add_global_constant env s name array dtype ini) = s"
  by (simp add: maybe_add_global_constant_def split: sum.splits option.splits)

lemma maybe_add_global_constant_new:
  "map_of (global_constants s) name = None \<Longrightarrow>
   maybe_add_global_constant env s name array dtype ini
     = add_global_constant env s name array dtype ini"
  by (simp add: maybe_add_global_constant_def)

lemma maybe_add_global_constant_grows:
  "map_of (global_constants s)
     \<subseteq>\<^sub>m map_of (global_constants (snd (maybe_add_global_constant env s name array dtype ini)))
   \<and> map_of (global_constant_initializers s)
     \<subseteq>\<^sub>m map_of (global_constant_initializers
          (snd (maybe_add_global_constant env s name array dtype ini)))"
proof (cases "map_of (global_constants s) name")
  case None
  show ?thesis
    unfolding maybe_add_global_constant_new[OF None]
    by (rule add_global_constant_grows)
next
  case (Some b)
  then show ?thesis by (simp add: maybe_add_global_constant_registered)
qed

lemma maybe_add_global_constant_dict_ok:
  "(dict_ok (global_constants s)
      \<longrightarrow> dict_ok (global_constants (snd (maybe_add_global_constant env s name array dtype ini))))
   \<and> (dict_ok (global_constant_initializers s)
      \<longrightarrow> dict_ok (global_constant_initializers
            (snd (maybe_add_global_constant env s name array dtype ini))))"
proof (cases "map_of (global_constants s) name")
  case None
  show ?thesis
    unfolding maybe_add_global_constant_new[OF None]
    by (rule add_global_constant_dict_ok)
next
  case (Some b)
  then show ?thesis by (simp add: maybe_add_global_constant_registered)
qed

text \<open>
  Claim C1. \<^verbatim>\<open>add_global_constant\<close> raises \<^verbatim>\<open>AssertionError\<close>, and leaves the object as it
  is, when the name is already in \<^verbatim>\<open>global_constants\<close>. \<^verbatim>\<open>maybe_add_global_constant\<close> with a
  registered name returns the blob registered for it when the initializer operator it
  builds equals the stored one once \<^verbatim>\<open>debug_info\<close> is cleared in both, and with a registered
  name it never changes the object. Whatever either method does, every entry of
  \<^verbatim>\<open>global_constants\<close> and of \<^verbatim>\<open>global_constant_initializers\<close> is still there afterwards with
  the same value, and keys stay distinct: a name has one blob and a blob one initializer.
\<close>

theorem global_constants_deduplicated:
  "(dict_contains name (global_constants s)
      \<longrightarrow> add_global_constant env s name array dtype ini = (Inl AssertionError, s))
   \<and> (map_of (global_constants s) name = Some b
        \<and> get_global_constant_initializer_op env b array dtype ini = Inr initializer_op
        \<and> map_of (global_constant_initializers s) b = Some stored
        \<and> op_equal initializer_op stored
      \<longrightarrow> maybe_add_global_constant env s name array dtype ini = (Inr b, s))
   \<and> (map_of (global_constants s) name = Some b
      \<longrightarrow> snd (maybe_add_global_constant env s name array dtype ini) = s)
   \<and> (s' = snd (add_global_constant env s name array dtype ini)
        \<or> s' = snd (maybe_add_global_constant env s name array dtype ini)
      \<longrightarrow> map_of (global_constants s) \<subseteq>\<^sub>m map_of (global_constants s')
          \<and> map_of (global_constant_initializers s)
                \<subseteq>\<^sub>m map_of (global_constant_initializers s')
          \<and> (dict_ok (global_constants s) \<longrightarrow> dict_ok (global_constants s'))
          \<and> (dict_ok (global_constant_initializers s)
                \<longrightarrow> dict_ok (global_constant_initializers s')))"
proof (intro conjI impI)
  assume "dict_contains name (global_constants s)"
  then show "add_global_constant env s name array dtype ini = (Inl AssertionError, s)"
    by (rule add_global_constant_registered)
next
  assume a: "map_of (global_constants s) name = Some b
        \<and> get_global_constant_initializer_op env b array dtype ini = Inr initializer_op
        \<and> map_of (global_constant_initializers s) b = Some stored
        \<and> op_equal initializer_op stored"
  show "maybe_add_global_constant env s name array dtype ini = (Inr b, s)"
    by (simp add: maybe_add_global_constant_def a[THEN conjunct1]
          a[THEN conjunct2, THEN conjunct1] a[THEN conjunct2, THEN conjunct2, THEN conjunct1]
          a[THEN conjunct2, THEN conjunct2, THEN conjunct2])
next
  assume "map_of (global_constants s) name = Some b"
  then show "snd (maybe_add_global_constant env s name array dtype ini) = s"
    by (rule maybe_add_global_constant_registered)
next
  assume "s' = snd (add_global_constant env s name array dtype ini)
        \<or> s' = snd (maybe_add_global_constant env s name array dtype ini)"
  then show "map_of (global_constants s) \<subseteq>\<^sub>m map_of (global_constants s')"
    using add_global_constant_grows[of s env name array dtype ini]
          maybe_add_global_constant_grows[of s env name array dtype ini]
    by (elim disjE) simp_all
next
  assume "s' = snd (add_global_constant env s name array dtype ini)
        \<or> s' = snd (maybe_add_global_constant env s name array dtype ini)"
  then show "map_of (global_constant_initializers s)
                \<subseteq>\<^sub>m map_of (global_constant_initializers s')"
    using add_global_constant_grows[of s env name array dtype ini]
          maybe_add_global_constant_grows[of s env name array dtype ini]
    by (elim disjE) simp_all
next
  assume "s' = snd (add_global_constant env s name array dtype ini)
        \<or> s' = snd (maybe_add_global_constant env s name array dtype ini)"
    and "dict_ok (global_constants s)"
  then show "dict_ok (global_constants s')"
    using add_global_constant_dict_ok[of s env name array dtype ini]
          maybe_add_global_constant_dict_ok[of s env name array dtype ini]
    by (elim disjE) simp_all
next
  assume "s' = snd (add_global_constant env s name array dtype ini)
        \<or> s' = snd (maybe_add_global_constant env s name array dtype ini)"
    and "dict_ok (global_constant_initializers s)"
  then show "dict_ok (global_constant_initializers s')"
    using add_global_constant_dict_ok[of s env name array dtype ini]
          maybe_add_global_constant_dict_ok[of s env name array dtype ini]
    by (elim disjE) simp_all
qed

lemma demo_one_op:
  "get_global_constant_initializer_op demo_env ''ONE'' (Some (PyFloat 1)) None None = Inr one_op"
  by (simp add: get_global_constant_initializer_op_def demo_env_def demo_np_array_def
        fill_op_name_def one_op_def)

theorem global_constants_deduplicated_witness:
  "dict_contains ''ONE'' (global_constants constants_model)
   \<and> add_global_constant demo_env constants_model ''ONE'' (Some (PyFloat 1)) None None
       = (Inl AssertionError, constants_model)
   \<and> map_of (global_constants constants_model) ''ONE'' = Some ''ONE''
   \<and> op_equal one_op (one_op\<lparr>debug_info := ''line 206''\<rparr>)
   \<and> maybe_add_global_constant demo_env constants_model ''ONE'' (Some (PyFloat 1)) None None
       = (Inr ''ONE'', constants_model)
   \<and> dict_ok (global_constants constants_model)
   \<and> dict_ok (global_constants
        (snd (add_global_constant demo_env constants_model ''TWO'' (Some (PyFloat 2)) None None)))
   \<and> map_of (global_constants
        (snd (add_global_constant demo_env constants_model ''TWO'' (Some (PyFloat 2)) None None)))
        ''ONE'' = Some ''ONE''"
proof -
  let ?a = "Some (PyFloat 1)"
  let ?stored = "one_op\<lparr>debug_info := ''line 206''\<rparr>"
  let ?s' = "snd (add_global_constant demo_env constants_model ''TWO'' (Some (PyFloat 2)) None None)"
  have gc: "map_of (global_constants constants_model) ''ONE'' = Some ''ONE''"
    by (simp add: constants_model_def)
  have dc: "dict_contains ''ONE'' (global_constants constants_model)"
    by (simp add: dict_contains_def gc)
  have st: "map_of (global_constant_initializers constants_model) ''ONE'' = Some ?stored"
    by (simp add: constants_model_def)
  have eq: "op_equal one_op ?stored" by (simp add: op_equal_def)
  have ok: "dict_ok (global_constants constants_model)"
    by (simp add: constants_model_def dict_ok_def)
  note t = global_constants_deduplicated[of "''ONE''" constants_model demo_env ?a None None
      "''ONE''" one_op ?stored constants_model]
  note u = global_constants_deduplicated[of "''TWO''" constants_model demo_env
      "Some (PyFloat 2)" None None "''ONE''" one_op ?stored ?s']
  have a: "add_global_constant demo_env constants_model ''ONE'' ?a None None
       = (Inl AssertionError, constants_model)"
    by (rule t[THEN conjunct1, rule_format]) (rule dc)
  have b: "maybe_add_global_constant demo_env constants_model ''ONE'' ?a None None
       = (Inr ''ONE'', constants_model)"
    by (rule t[THEN conjunct2, THEN conjunct1, rule_format]) (intro conjI gc demo_one_op st eq)
  note g = u[THEN conjunct2, THEN conjunct2, THEN conjunct2, rule_format, OF disjI1, OF refl]
  have c: "dict_ok (global_constants ?s')"
    by (rule g[THEN conjunct2, THEN conjunct2, THEN conjunct1, rule_format]) (rule ok)
  have d: "map_of (global_constants ?s') ''ONE'' = Some ''ONE''"
    using g[THEN conjunct1] gc by (auto simp: map_le_def dom_def)
  show ?thesis
    apply (intro conjI)
           apply (rule dc)
          apply (rule a)
         apply (rule gc)
        apply (rule eq)
       apply (rule b)
      apply (rule ok)
     apply (rule c)
    apply (rule d)
    done
qed

section \<open>Init nets\<close>



























section \<open>Loss aggregation\<close>

text \<open>The field name that \<^verbatim>\<open>add_loss\<close> settles on when a loss struct is already there.\<close>

definition loss_prefix :: "env \<Rightarrow> field \<Rightarrow> string \<Rightarrow> string" where
  "loss_prefix env current name =
     auto_name_loop (fset_of_list (Struct_names env current)) (name @ ''_auto_'') name 0"

lemma loss_prefix_fresh: "loss_prefix env current name \<notin> set (Struct_names env current)"
  using auto_name_loop_fresh[of "fset_of_list (Struct_names env current)" "name @ ''_auto_''" name 0]
  by (simp add: loss_prefix_def fset_of_list.rep_eq)

lemma loss_prefix_unused:
  "name \<notin> set (Struct_names env current) \<Longrightarrow> loss_prefix env current name = name"
  by (simp add: loss_prefix_def auto_name_loop_unused fset_of_list.rep_eq)

lemma loss_prefix_least:
  assumes "name \<in> set (Struct_names env current)"
  shows "\<exists>i. loss_prefix env current name = name @ ''_auto_'' @ str_nat i
            \<and> (\<forall>j<i. name @ ''_auto_'' @ str_nat j \<in> set (Struct_names env current))"
proof -
  have "name |\<in>| fset_of_list (Struct_names env current)"
    using assms by (simp add: fset_of_list.rep_eq)
  from auto_name_loop_least[OF this, of 0 "name @ ''_auto_''"] obtain k where
    k: "loss_prefix env current name = (name @ ''_auto_'') @ str_nat k"
    "\<forall>j. 0 \<le> j \<and> j < k \<longrightarrow> (name @ ''_auto_'') @ str_nat j
         |\<in>| fset_of_list (Struct_names env current)"
    unfolding loss_prefix_def by blast
  then show ?thesis
    by (intro exI[of _ k]) (simp add: fset_of_list.rep_eq)
qed

lemma add_loss_set:
  "loss s = Some current \<Longrightarrow>
   add_loss env s (LossField f) name =
     (case new_Struct env [(loss_prefix env current name, f)] of
        Inl e \<Rightarrow> (Inl e, s)
      | Inr loss_struct \<Rightarrow>
          (case Struct_add env current loss_struct of
             Inl e \<Rightarrow> (Inl e, s)
           | Inr merged \<Rightarrow> (Inr (), s\<lparr>loss := Some merged\<rparr>)))"
  by (simp add: add_loss_def loss_prefix_def Let_def)

lemma add_loss_failure:
  "fst (add_loss env s l name) = Inr () \<or> snd (add_loss env s l name) = s"
  by (simp add: add_loss_def Let_def split: loss_arg.splits option.splits sum.splits)

text \<open>
  Claim C4. \<^verbatim>\<open>add_loss(loss, name)\<close> raises \<^verbatim>\<open>AssertionError\<close> unless \<open>loss\<close> is a
  \<^verbatim>\<open>schema.Scalar\<close> or a \<^verbatim>\<open>schema.Struct\<close>. While no loss is set, the loss becomes the struct
  built from the single field \<open>(name, loss)\<close>. When a loss struct is there, the loss is added
  to it under \<open>loss_prefix\<close>: a name the struct does not hold, which is \<open>name\<close> itself when
  the struct does not hold it, and otherwise \<^verbatim>\<open>name + '_auto_' + str(i)\<close> for the least
  \<open>i\<close> whose name the struct does not hold. So the field added never has the name of a field
  already there. A call that raises leaves the object unchanged.
\<close>

theorem add_loss_collision_free:
  "(l = LossNone \<or> l = LossOther \<longrightarrow> add_loss env s l name = (Inl AssertionError, s))
   \<and> (loss s = None \<and> new_Struct env [(name, f)] = Inr single
        \<longrightarrow> add_loss env s (LossField f) name = (Inr (), s\<lparr>loss := Some single\<rparr>))
   \<and> (loss s = Some current
        \<and> new_Struct env [(loss_prefix env current name, f)] = Inr loss_struct
        \<and> Struct_add env current loss_struct = Inr merged
        \<longrightarrow> add_loss env s (LossField f) name = (Inr (), s\<lparr>loss := Some merged\<rparr>))
   \<and> loss_prefix env current name \<notin> set (Struct_names env current)
   \<and> (name \<notin> set (Struct_names env current) \<longrightarrow> loss_prefix env current name = name)
   \<and> (name \<in> set (Struct_names env current)
        \<longrightarrow> (\<exists>i. loss_prefix env current name = name @ ''_auto_'' @ str_nat i
                 \<and> (\<forall>j<i. name @ ''_auto_'' @ str_nat j \<in> set (Struct_names env current))))
   \<and> (fst (add_loss env s l name) = Inr () \<or> snd (add_loss env s l name) = s)"
proof (intro conjI impI)
  assume "l = LossNone \<or> l = LossOther"
  then show "add_loss env s l name = (Inl AssertionError, s)"
    by (auto simp: add_loss_def)
next
  assume a: "loss s = None \<and> new_Struct env [(name, f)] = Inr single"
  show "add_loss env s (LossField f) name = (Inr (), s\<lparr>loss := Some single\<rparr>)"
    by (simp add: add_loss_def a[THEN conjunct1] a[THEN conjunct2])
next
  assume a: "loss s = Some current
        \<and> new_Struct env [(loss_prefix env current name, f)] = Inr loss_struct
        \<and> Struct_add env current loss_struct = Inr merged"
  show "add_loss env s (LossField f) name = (Inr (), s\<lparr>loss := Some merged\<rparr>)"
    by (simp add: add_loss_set[OF a[THEN conjunct1]] a[THEN conjunct2, THEN conjunct1]
          a[THEN conjunct2, THEN conjunct2])
next
  show "loss_prefix env current name \<notin> set (Struct_names env current)"
    by (rule loss_prefix_fresh)
next
  assume "name \<notin> set (Struct_names env current)"
  then show "loss_prefix env current name = name" by (rule loss_prefix_unused)
next
  assume "name \<in> set (Struct_names env current)"
  then show "\<exists>i. loss_prefix env current name = name @ ''_auto_'' @ str_nat i
                 \<and> (\<forall>j<i. name @ ''_auto_'' @ str_nat j \<in> set (Struct_names env current))"
    by (rule loss_prefix_least)
next
  show "fst (add_loss env s l name) = Inr () \<or> snd (add_loss env s l name) = s"
    by (rule add_loss_failure)
qed

lemma demo_Struct_names: "Struct_names demo_env (Struct fs) = map fst fs"
  by (simp add: demo_env_def)

lemma demo_loss_prefix: "loss_prefix demo_env two_losses ''a'' = ''a_auto_1''"
  by (simp add: loss_prefix_def two_losses_def demo_Struct_names
        auto_name_loop.simps str_nat.simps digit_char_def)

theorem add_loss_collision_free_witness:
  "add_loss demo_env demo_model LossNone ''a'' = (Inl AssertionError, demo_model)
   \<and> loss demo_model = None
   \<and> add_loss demo_env demo_model (LossField loss_a) ''a''
       = (Inr (), demo_model\<lparr>loss := Some (Struct [(''a'', loss_a)])\<rparr>)
   \<and> loss loss_model = Some two_losses
   \<and> ''a'' \<in> set (Struct_names demo_env two_losses)
   \<and> loss_prefix demo_env two_losses ''a'' = ''a_auto_1''
   \<and> ''a_auto_1'' \<notin> set (Struct_names demo_env two_losses)
   \<and> add_loss demo_env loss_model (LossField loss_b) ''a''
       = (Inr (), loss_model\<lparr>loss := Some (Struct
            [(''a'', loss_a), (''a_auto_0'', loss_b), (''a_auto_1'', loss_b)])\<rparr>)
   \<and> ''b'' \<notin> set (Struct_names demo_env two_losses)
   \<and> loss_prefix demo_env two_losses ''b'' = ''b''"
proof -
  note t0 = add_loss_collision_free[of LossNone demo_env demo_model "''a''" loss_a
              "Struct [(''a'', loss_a)]" two_losses "Struct []" "Struct []"]
  note t1 = add_loss_collision_free[of "LossField loss_b" demo_env loss_model "''a''" loss_b
              "Struct []" two_losses "Struct [(''a_auto_1'', loss_b)]"
              "Struct [(''a'', loss_a), (''a_auto_0'', loss_b), (''a_auto_1'', loss_b)]"]
  note t2 = add_loss_collision_free[of "LossField loss_b" demo_env loss_model "''b''" loss_b
              "Struct []" two_losses "Struct []" "Struct []"]
  have l0: "loss demo_model = None" by (simp add: demo_model_def)
  have l1: "loss loss_model = Some two_losses" by (simp add: loss_model_def)
  have a: "add_loss demo_env demo_model LossNone ''a'' = (Inl AssertionError, demo_model)"
    by (rule t0[THEN conjunct1, rule_format]) simp
  have b: "add_loss demo_env demo_model (LossField loss_a) ''a''
       = (Inr (), demo_model\<lparr>loss := Some (Struct [(''a'', loss_a)])\<rparr>)"
    by (rule t0[THEN conjunct2, THEN conjunct1, rule_format])
       (intro conjI l0 demo_new_Struct)
  have used: "''a'' \<in> set (Struct_names demo_env two_losses)"
    by (simp add: two_losses_def demo_Struct_names)
  have unused: "''b'' \<notin> set (Struct_names demo_env two_losses)"
    by (simp add: two_losses_def demo_Struct_names)
  have st: "new_Struct demo_env [(loss_prefix demo_env two_losses ''a'', loss_b)]
      = Inr (Struct [(''a_auto_1'', loss_b)])"
    by (simp add: demo_loss_prefix demo_new_Struct)
  have ad: "Struct_add demo_env two_losses (Struct [(''a_auto_1'', loss_b)])
      = Inr (Struct [(''a'', loss_a), (''a_auto_0'', loss_b), (''a_auto_1'', loss_b)])"
    by (simp add: two_losses_def demo_Struct_add_Struct)
  have c: "add_loss demo_env loss_model (LossField loss_b) ''a''
       = (Inr (), loss_model\<lparr>loss := Some (Struct
            [(''a'', loss_a), (''a_auto_0'', loss_b), (''a_auto_1'', loss_b)])\<rparr>)"
    by (rule t1[THEN conjunct2, THEN conjunct2, THEN conjunct1, rule_format])
       (intro conjI l1 st ad)
  have fresh: "loss_prefix demo_env two_losses ''a'' \<notin> set (Struct_names demo_env two_losses)"
    by (rule t1[THEN conjunct2, THEN conjunct2, THEN conjunct2, THEN conjunct1])
  have fresh': "''a_auto_1'' \<notin> set (Struct_names demo_env two_losses)"
    using fresh unfolding demo_loss_prefix .
  have d: "loss_prefix demo_env two_losses ''b'' = ''b''"
    by (rule t2[THEN conjunct2, THEN conjunct2, THEN conjunct2, THEN conjunct2, THEN conjunct1,
          rule_format]) (rule unused)
  show ?thesis
    apply (intro conjI)
             apply (rule a)
            apply (rule l0)
           apply (rule b)
          apply (rule l1)
         apply (rule used)
        apply (rule demo_loss_prefix)
       apply (rule fresh')
      apply (rule c)
     apply (rule unused)
    apply (rule d)
    done
qed

section \<open>Regularizers\<close>


















section \<open>Shapes of shared parameters\<close>


lemma build_param_iff:
  "build_param env s param_name shape ini opt ps reg = Inr (name, p) \<longleftrightarrow>
     (\<exists>init_op_args initializer_op.
        resolve_param_name env param_name = Inr name
        \<and> init_op_args_of ini shape = Inr init_op_args
        \<and> (if initialize_params s
            then \<exists>operator. CreateOperator env (fst ini) [] name init_op_args = Inr operator
                   \<and> initializer_op = Some operator
            else initializer_op = None)
        \<and> new_LayerParameter env name initializer_op opt ps reg = Inr p)"
  by (auto simp: build_param_def split: sum.splits)

lemma create_param_failure:
  "(\<exists>p. fst (create_param env s param_name shape ini opt ps reg) = Inr p)
   \<or> snd (create_param env s param_name shape ini opt ps reg) = s"
  by (auto simp: create_param_def split: sum.splits prod.splits)

lemma create_param_built:
  assumes "build_param env s param_name shape ini opt ps reg = Inr (name, p)"
  shows "create_param env s param_name shape ini opt ps reg =
     (case validate_param_shape s name shape of
        Inl e \<Rightarrow> (Inl e, s)
      | Inr _ \<Rightarrow> (Inr p, s\<lparr>param_to_shape := AList.update name shape (param_to_shape s)\<rparr>))"
  using assms by (simp add: create_param_def)

text \<open>
  Claim C2, as amended. \<^verbatim>\<open>create_param\<close> first resolves the name, builds the initializer's
  arguments, creates the initializer operator and constructs the \<^verbatim>\<open>LayerParameter\<close>
  (\<open>build_param\<close>); each of these steps can raise (a \<open>param_name\<close> that is neither a blob
  reference nor a string, an initializer with more than two components, \<^verbatim>\<open>'shape'\<close> already
  among the initializer's arguments while a shape is given, an error of \<^verbatim>\<open>CreateOperator\<close> or
  of the constructor), and then the call raises that error with the object unchanged. For a
  call that gets through them with the name \<open>name\<close> and the parameter \<open>p\<close>: if \<open>name\<close> is
  recorded in \<^verbatim>\<open>_param_to_shape\<close> with a shape that differs from the requested one, the call
  raises \<^verbatim>\<open>ValueError\<close> and leaves the object, so also the entry of \<open>name\<close>, unchanged; if
  \<open>name\<close> is new or recorded with the requested shape, the call returns \<open>p\<close> and records
  \<open>(name, shape)\<close> in \<^verbatim>\<open>_param_to_shape\<close>, changing nothing else. A call that raises always
  leaves the object unchanged.
\<close>

theorem create_param_shape_consistency:
  "(build_param env s param_name shape ini opt ps reg = Inr (name, p)
      \<and> map_of (param_to_shape s) name = Some ref_shape \<and> shape \<noteq> ref_shape
      \<longrightarrow> create_param env s param_name shape ini opt ps reg = (Inl ValueError, s))
   \<and> (build_param env s param_name shape ini opt ps reg = Inr (name, p)
      \<and> (map_of (param_to_shape s) name = None \<or> map_of (param_to_shape s) name = Some shape)
      \<longrightarrow> create_param env s param_name shape ini opt ps reg
            = (Inr p, s\<lparr>param_to_shape := AList.update name shape (param_to_shape s)\<rparr>)
          \<and> map_of (param_to_shape (snd (create_param env s param_name shape ini opt ps reg)))
               name = Some shape)
   \<and> (build_param env s param_name shape ini opt ps reg = Inl e
      \<longrightarrow> create_param env s param_name shape ini opt ps reg = (Inl e, s))
   \<and> ((\<exists>q. fst (create_param env s param_name shape ini opt ps reg) = Inr q)
      \<or> snd (create_param env s param_name shape ini opt ps reg) = s)
   \<and> (build_param env s param_name shape ini opt ps reg = Inr (name, p)) =
       (\<exists>init_op_args initializer_op.
          resolve_param_name env param_name = Inr name
          \<and> init_op_args_of ini shape = Inr init_op_args
          \<and> (if initialize_params s
              then \<exists>operator. CreateOperator env (fst ini) [] name init_op_args = Inr operator
                     \<and> initializer_op = Some operator
              else initializer_op = None)
          \<and> new_LayerParameter env name initializer_op opt ps reg = Inr p)"
proof (intro conjI impI)
  assume a: "build_param env s param_name shape ini opt ps reg = Inr (name, p)
      \<and> map_of (param_to_shape s) name = Some ref_shape \<and> shape \<noteq> ref_shape"
  show "create_param env s param_name shape ini opt ps reg = (Inl ValueError, s)"
    by (simp add: create_param_built[OF a[THEN conjunct1]] validate_param_shape_def
          a[THEN conjunct2, THEN conjunct1] a[THEN conjunct2, THEN conjunct2])
next
  assume a: "build_param env s param_name shape ini opt ps reg = Inr (name, p)
      \<and> (map_of (param_to_shape s) name = None \<or> map_of (param_to_shape s) name = Some shape)"
  from a[THEN conjunct2] have v: "validate_param_shape s name shape = Inr ()"
    by (auto simp: validate_param_shape_def)
  show "create_param env s param_name shape ini opt ps reg
            = (Inr p, s\<lparr>param_to_shape := AList.update name shape (param_to_shape s)\<rparr>)"
    by (simp add: create_param_built[OF a[THEN conjunct1]] v)
  then show "map_of (param_to_shape (snd (create_param env s param_name shape ini opt ps reg)))
               name = Some shape"
    by (simp add: update_conv')
next
  assume "build_param env s param_name shape ini opt ps reg = Inl e"
  then show "create_param env s param_name shape ini opt ps reg = (Inl e, s)"
    by (simp add: create_param_def)
next
  show "(\<exists>q. fst (create_param env s param_name shape ini opt ps reg) = Inr q)
      \<or> snd (create_param env s param_name shape ini opt ps reg) = s"
    by (rule create_param_failure)
next
  show "(build_param env s param_name shape ini opt ps reg = Inr (name, p)) =
       (\<exists>init_op_args initializer_op.
          resolve_param_name env param_name = Inr name
          \<and> init_op_args_of ini shape = Inr init_op_args
          \<and> (if initialize_params s
              then \<exists>operator. CreateOperator env (fst ini) [] name init_op_args = Inr operator
                     \<and> initializer_op = Some operator
              else initializer_op = None)
          \<and> new_LayerParameter env name initializer_op opt ps reg = Inr p)"
    by (rule build_param_iff)
qed

lemma demo_build_param:
  "build_param demo_env shape_model (StrName name) (Some shape) (''ConstantFill'', []) None None
     None = Inr (name, constant_fill name shape)"
  by (simp add: build_param_def resolve_param_name_def init_op_args_of_def dict_contains_def
        demo_env_def shape_model_def demo_model_def constant_fill_def)

lemma demo_build_param_other:
  "build_param demo_env shape_model OtherName (Some [2]) (''ConstantFill'', []) None None None
     = Inl TypeError"
  by (simp add: build_param_def resolve_param_name_def)

lemma shape_model_lookup:
  "map_of (param_to_shape shape_model) ''fc/w'' = Some (Some [5])"
  "map_of (param_to_shape shape_model) ''fc/b'' = None"
  by (simp_all add: shape_model_def)

text \<open>
  The claim without the proviso fails: with \<^verbatim>\<open>'shape'\<close> among the initializer's arguments,
  \<^verbatim>\<open>create_param('fc/w', [2], ('ConstantFill', {'shape': [2]}))\<close> raises \<^verbatim>\<open>AssertionError\<close>,
  not \<^verbatim>\<open>ValueError\<close>, although \<^verbatim>\<open>'fc/w'\<close> is recorded with the shape \<^verbatim>\<open>[5]\<close>; and the same
  call for the new name \<^verbatim>\<open>'fc/b'\<close> does not succeed.
\<close>

theorem create_param_malformed_initializer_counterexample:
  "resolve_param_name demo_env (StrName ''fc/w'') = Inr ''fc/w''
   \<and> map_of (param_to_shape shape_model) ''fc/w'' = Some (Some [5])
   \<and> create_param demo_env shape_model (StrName ''fc/w'') (Some [2])
        (''ConstantFill'', [[(''shape'', PyList [PyInt 2])]]) None None None
       = (Inl AssertionError, shape_model)
   \<and> resolve_param_name demo_env (StrName ''fc/b'') = Inr ''fc/b''
   \<and> map_of (param_to_shape shape_model) ''fc/b'' = None
   \<and> create_param demo_env shape_model (StrName ''fc/b'') (Some [2])
        (''ConstantFill'', [[(''shape'', PyList [PyInt 2])]]) None None None
       = (Inl AssertionError, shape_model)"
  by (simp add: create_param_def build_param_def resolve_param_name_def init_op_args_of_def
        dict_contains_def demo_env_def shape_model_def)

theorem create_param_shape_consistency_witness:
  "build_param demo_env shape_model (StrName ''fc/w'') (Some [2]) (''ConstantFill'', []) None
     None None = Inr (''fc/w'', constant_fill ''fc/w'' [2])
   \<and> map_of (param_to_shape shape_model) ''fc/w'' = Some (Some [5])
   \<and> Some [2] \<noteq> Some [5::int]
   \<and> create_param demo_env shape_model (StrName ''fc/w'') (Some [2]) (''ConstantFill'', []) None
       None None = (Inl ValueError, shape_model)
   \<and> map_of (param_to_shape shape_model) ''fc/b'' = None
   \<and> create_param demo_env shape_model (StrName ''fc/b'') (Some [2]) (''ConstantFill'', []) None
       None None
       = (Inr (constant_fill ''fc/b'' [2]),
          shape_model\<lparr>param_to_shape := [(''fc/w'', Some [5]), (''fc/b'', Some [2])]\<rparr>)
   \<and> create_param demo_env shape_model (StrName ''fc/w'') (Some [5]) (''ConstantFill'', []) None
       None None = (Inr (constant_fill ''fc/w'' [5]), shape_model)
   \<and> create_param demo_env shape_model OtherName (Some [2]) (''ConstantFill'', []) None
       None None = (Inl TypeError, shape_model)"
proof -
  let ?ini = "(''ConstantFill'', []) :: initializer_arg"
  have ne: "Some [2] \<noteq> Some [5::int]" by simp
  have a: "create_param demo_env shape_model (StrName ''fc/w'') (Some [2]) ?ini None
       None None = (Inl ValueError, shape_model)"
    by (rule create_param_shape_consistency[of demo_env shape_model "StrName ''fc/w''"
          "Some [2]" ?ini None None None "''fc/w''" "constant_fill ''fc/w'' [2]" "Some [5]",
          THEN conjunct1, rule_format])
       (intro conjI demo_build_param shape_model_lookup ne)
  have "create_param demo_env shape_model (StrName ''fc/b'') (Some [2]) ?ini None None None
       = (Inr (constant_fill ''fc/b'' [2]),
          shape_model\<lparr>param_to_shape :=
             AList.update ''fc/b'' (Some [2]) (param_to_shape shape_model)\<rparr>)"
    by (rule create_param_shape_consistency[of demo_env shape_model "StrName ''fc/b''"
          "Some [2]" ?ini None None None "''fc/b''" "constant_fill ''fc/b'' [2]",
          THEN conjunct2, THEN conjunct1, rule_format, THEN conjunct1])
       (intro conjI disjI1 demo_build_param shape_model_lookup)
  then have b: "create_param demo_env shape_model (StrName ''fc/b'') (Some [2]) ?ini None
       None None
       = (Inr (constant_fill ''fc/b'' [2]),
          shape_model\<lparr>param_to_shape := [(''fc/w'', Some [5]), (''fc/b'', Some [2])]\<rparr>)"
    by (simp add: shape_model_def)
  have "create_param demo_env shape_model (StrName ''fc/w'') (Some [5]) ?ini None None None
       = (Inr (constant_fill ''fc/w'' [5]),
          shape_model\<lparr>param_to_shape :=
             AList.update ''fc/w'' (Some [5]) (param_to_shape shape_model)\<rparr>)"
    by (rule create_param_shape_consistency[of demo_env shape_model "StrName ''fc/w''"
          "Some [5]" ?ini None None None "''fc/w''" "constant_fill ''fc/w'' [5]",
          THEN conjunct2, THEN conjunct1, rule_format, THEN conjunct1])
       (intro conjI disjI2 demo_build_param shape_model_lookup)
  then have c: "create_param demo_env shape_model (StrName ''fc/w'') (Some [5]) ?ini None
       None None = (Inr (constant_fill ''fc/w'' [5]), shape_model)"
    by (simp add: shape_model_def)
  have d: "create_param demo_env shape_model OtherName (Some [2]) ?ini None
       None None = (Inl TypeError, shape_model)"
    by (rule create_param_shape_consistency[of demo_env shape_model OtherName
          "Some [2]" ?ini None None None _ _ _ TypeError,
          THEN conjunct2, THEN conjunct2, THEN conjunct1, rule_format])
       (rule demo_build_param_other)
  show ?thesis
    apply (intro conjI)
           apply (rule demo_build_param)
          apply (rule shape_model_lookup)
         apply (rule ne)
        apply (rule a)
       apply (rule shape_model_lookup)
      apply (rule b)
     apply (rule c)
    apply (rule d)
    done
qed


section \<open>Optimizers\<close>
























end
